theory Spec2Isabelle
  imports Complex_Main
begin

section \<open>Errors\<close>

text \<open>
  Every exception of the two source files is a value. \<open>AssertionError\<close> stands for a failed
  \<^verbatim>\<open>assert\<close> statement written in the source itself; an exception raised inside a
  library or framework call (torch, torch\_scatter, numpy, the blocks of the network) is
  \<open>FrameworkError\<close> with the library's message, so that the two can be told apart.
\<close>

datatype error =
    ImportError
  | AssertionError
  | ValueError
  | TypeError
  | IndexError
  | AttributeError
  | SystemExit
  | FrameworkError string

text \<open>
  Sequencing: the second step runs on the value of the first, and an exception of the first
  is the exception of the whole.
\<close>

definition and_then :: "error + 'a \<Rightarrow> ('a \<Rightarrow> error + 'b) \<Rightarrow> error + 'b" where
  "and_then m f = (case m of Inl e \<Rightarrow> Inl e | Inr x \<Rightarrow> f x)"

section \<open>The preprocessing script \<^verbatim>\<open>trans1x_linear_ref.py\<close>\<close>

subsection \<open>Dataset samples\<close>

text \<open>
  One element of \<^verbatim>\<open>PretrainLmdbDataset\<close>: the fields the script reads. Atomic numbers are
  natural numbers, the energy target \<^verbatim>\<open>data.y\<close> is a real, and \<^verbatim>\<open>data.force\<close> is an
  \<open>n \<times> 3\<close> array, one force vector per atom. The energies and forces, floating-point
  numbers, are idealised as reals.
\<close>

record sample =
  atomic_numbers :: "nat list"
  y :: real
  force :: "(real \<times> real \<times> real) list"

subsection \<open>The tensor primitives used by \<^verbatim>\<open>extract_data\<close>\<close>

text \<open>
  \<^verbatim>\<open>torch.ones\<close> gives a float32 tensor and the scatter sum keeps that type. A float32
  number that is a whole number is written as that integer: these are the only float32
  values \<^verbatim>\<open>extract_data\<close> of \<^verbatim>\<open>_linref\<close> computes with. Adding two of them rounds the exact
  sum to the nearest number with a significand of 24 bits, a tie going to the even
  significand (sums beyond the largest float32 do not arise from adding ones).
\<close>

type_synonym float32 = int

fun bit_length :: "nat \<Rightarrow> nat" where
  "bit_length n = (if n = 0 then 0 else Suc (bit_length (n div 2)))"

declare bit_length.simps [simp del]

definition round_f32 :: "int \<Rightarrow> float32" where
  "round_f32 v =
     (let m = nat \<bar>v\<bar>;
          e = bit_length m - 24;
          q = m div 2 ^ e;
          r = m mod 2 ^ e;
          q' = (if 2 ^ e < 2 * r \<or> (2 * r = 2 ^ e \<and> odd q) then q + 1 else q)
      in sgn v * int (q' * 2 ^ e))"

definition f32_add :: "float32 \<Rightarrow> float32 \<Rightarrow> float32" where
  "f32_add a b = round_f32 (a + b)"

text \<open>\<^verbatim>\<open>torch.ones(n)\<close>.\<close>

definition torch_ones :: "nat \<Rightarrow> float32 list" where
  "torch_ones n = replicate n 1"

text \<open>
  \<^verbatim>\<open>tensor.long()\<close>: the atomic numbers become 64-bit signed indices; a float32 that is a
  whole number becomes that integer.
\<close>

definition long_of_nat :: "nat list \<Rightarrow> int list" where
  "long_of_nat zs = map int zs"

definition long_of_float :: "float32 list \<Rightarrow> int list" where
  "long_of_float vs = map (\<lambda>v. v) vs"

text \<open>
  \<^verbatim>\<open>scatter(src, index, dim_size=n)\<close> of torch\_scatter with the default reduction
  \<^verbatim>\<open>"sum"\<close> on one-dimensional tensors: \<^verbatim>\<open>out = zeros(n); out.scatter_add_(0, index, src)\<close>,
  which on the CPU adds the entries of \<^verbatim>\<open>src\<close> one after the other, in float32. An index
  outside \<open>0 .. n - 1\<close> raises; so does a length mismatch.
\<close>

fun scatter_add :: "float32 list \<Rightarrow> float32 list \<Rightarrow> int list \<Rightarrow> error + float32 list" where
  "scatter_add out [] [] = Inr out"
| "scatter_add out (s # src) (i # index) =
     (if 0 \<le> i \<and> i < int (length out)
      then scatter_add (out[nat i := f32_add (out ! nat i) s]) src index
      else Inl (FrameworkError ''index out of bounds''))"
| "scatter_add out _ _ = Inl (FrameworkError ''shape mismatch'')"

definition scatter :: "float32 list \<Rightarrow> int list \<Rightarrow> nat \<Rightarrow> error + float32 list" where
  "scatter src index dim_size = scatter_add (replicate dim_size 0) src index"

subsection \<open>\<^verbatim>\<open>_linref\<close>: the per-sample extraction\<close>

text \<open>
  \<^verbatim>\<open>dataset()[idx]\<close> for an index of \<^verbatim>\<open>range(len(dataset()))\<close>; an index past the end
  raises.
\<close>

definition getitem :: "sample list \<Rightarrow> nat \<Rightarrow> error + sample" where
  "getitem ds idx = (if idx < length ds then Inr (ds ! idx) else Inl IndexError)"

definition linref_extract_data ::
  "sample list \<Rightarrow> nat \<Rightarrow> error + (int list \<times> real \<times> (real \<times> real \<times> real) list)" where
  "linref_extract_data ds idx =
     (case getitem ds idx of
        Inl e \<Rightarrow> Inl e
      | Inr data \<Rightarrow>
          (case scatter (torch_ones (length (atomic_numbers data)))
                        (long_of_nat (atomic_numbers data)) 10 of
             Inl e \<Rightarrow> Inl e
           | Inr x \<Rightarrow> Inr (long_of_float x, y data, force data)))"

subsection \<open>The worker pool\<close>

text \<open>
  \<^verbatim>\<open>mp.Pool(processes)\<close>: the pool starts \<^verbatim>\<open>processes\<close> worker processes; when the
  argument is \<^verbatim>\<open>None\<close> it starts as many as \<^verbatim>\<open>os.cpu_count()\<close> reports; a number below one
  raises \<^verbatim>\<open>ValueError\<close>. The result is the number of worker processes.
\<close>

datatype command = Compute_mean_std | Linref

datatype argval = NoneV | PathV string | IntV int | StrV string | FnV command

definition mp_Pool :: "nat \<Rightarrow> argval \<Rightarrow> error + nat" where
  "mp_Pool cpus processes =
     (case processes of
        NoneV \<Rightarrow> Inr cpus
      | IntV n \<Rightarrow> (if n < 1 then Inl ValueError else Inr (nat n))
      | _ \<Rightarrow> Inl TypeError)"

text \<open>
  \<^verbatim>\<open>list(tqdm(pool.imap(f, indices)))\<close>: the results in the order of the indices, each index
  once; the first exception of a worker is raised again while the list is built. How the
  calls are spread over the worker processes is not part of the model.
\<close>

fun imap :: "('a \<Rightarrow> error + 'b) \<Rightarrow> 'a list \<Rightarrow> error + 'b list" where
  "imap f [] = Inr []"
| "imap f (i # idxs) =
     (case f i of
        Inl e \<Rightarrow> Inl e
      | Inr r \<Rightarrow> (case imap f idxs of Inl e \<Rightarrow> Inl e | Inr rs \<Rightarrow> Inr (r # rs)))"

subsection \<open>What the script is run with\<close>

text \<open>
  The parsed command line is an \<^verbatim>\<open>argparse.Namespace\<close>: attribute names with their values;
  reading an attribute that was never set raises \<^verbatim>\<open>AttributeError\<close>.
\<close>

type_synonym namespace = "(string \<times> argval) list"

definition getattr :: "namespace \<Rightarrow> string \<Rightarrow> error + argval" where
  "getattr ns a = (case map_of ns a of None \<Rightarrow> Inl AttributeError | Some v \<Rightarrow> Inr v)"

text \<open>
  What the script takes from outside the two source files: the number of CPU cores of the
  machine, the dataset class (\<^verbatim>\<open>PretrainLmdbDataset(PretrainDatasetConfig(src=..., lin_ref=...))\<close>,
  a list of samples or an exception), and \<^verbatim>\<open>np.linalg.lstsq(X, y, rcond=None)[0]\<close>.
\<close>

record runtime =
  cpu_count :: nat
  open_dataset :: "argval \<Rightarrow> argval \<Rightarrow> error + sample list"
  lstsq :: "int list list \<Rightarrow> real list \<Rightarrow> real list"

text \<open>
  What a run that goes through leaves behind, in order: the pool that was started, what was
  printed and the file that was written, under the name it has on disk, with its content. A
  run that raises is its exception alone.
\<close>

datatype effect =
    Pool_started nat
  | Print_stats "real option" "real option" "real option" "real option"
  | Pickle_dump string "(string \<times> real option) list"
  | Savez_compressed string "(string \<times> real list) list"
  | Print_saved string

subsection \<open>\<^verbatim>\<open>pool = mp.Pool(args.num_workers)\<close>\<close>

text \<open>The first statement of both subcommands; the result is the number of worker processes.\<close>

definition start_pool :: "runtime \<Rightarrow> namespace \<Rightarrow> error + nat" where
  "start_pool rt args =
     and_then (getattr args ''num_workers'') (\<lambda>nw. mp_Pool (cpu_count rt) nw)"

subsection \<open>\<^verbatim>\<open>_linref\<close>\<close>

text \<open>\<^verbatim>\<open>np.vstack\<close> raises on an empty list and on rows of different lengths.\<close>

definition np_vstack :: "int list list \<Rightarrow> error + int list list" where
  "np_vstack rows =
     (if rows = [] then Inl ValueError
      else if list_all (\<lambda>r. length r = length (hd rows)) rows then Inr rows
      else Inl ValueError)"

text \<open>
  \<^verbatim>\<open>np.savez_compressed(file, ...)\<close> writes to \<^verbatim>\<open>file\<close> when that name ends in
  \<^verbatim>\<open>.npz\<close> and to \<^verbatim>\<open>file + '.npz'\<close> otherwise.
\<close>

definition endswith :: "string \<Rightarrow> string \<Rightarrow> bool" where
  "endswith s suffix \<longleftrightarrow>
     length suffix \<le> length s \<and> drop (length s - length suffix) s = suffix"

definition npz_file :: "string \<Rightarrow> string" where
  "npz_file file = (if endswith file ''.npz'' then file else file @ ''.npz'')"

definition linref :: "runtime \<Rightarrow> namespace \<Rightarrow> error + effect list" where
  "linref rt args =
     and_then (start_pool rt args) (\<lambda>workers.
     and_then (getattr args ''src'') (\<lambda>src.
     and_then (open_dataset rt src NoneV) (\<lambda>ds.
     and_then (imap (linref_extract_data ds) [0..<length ds]) (\<lambda>outputs.
     (let features = map (\<lambda>x. fst x) outputs;
          targets = map (\<lambda>x. fst (snd x)) outputs
      in
     and_then (np_vstack features) (\<lambda>X.
     (let coeff = lstsq rt X targets in
     and_then (getattr args ''out_path'') (\<lambda>out.
       (case out of
          PathV p \<Rightarrow> Inr [Pool_started workers,
                           Savez_compressed (npz_file p) [(''coeff'', coeff)],
                           Print_saved p]
        | _ \<Rightarrow> Inl TypeError)))))))))"

subsection \<open>\<^verbatim>\<open>_compute_mean_std\<close>\<close>

definition mean_std_extract_data ::
  "sample list \<Rightarrow> nat \<Rightarrow> error + (real \<times> (real \<times> real \<times> real) list)" where
  "mean_std_extract_data ds idx =
     (case getitem ds idx of
        Inl e \<Rightarrow> Inl e
      | Inr data \<Rightarrow> Inr (y data, force data))"

text \<open>
  The numpy reductions. \<^verbatim>\<open>np.mean\<close> of an empty array is \<^verbatim>\<open>nan\<close> (with a warning, no
  exception): \<open>None\<close> here. \<^verbatim>\<open>np.std\<close> is \<^verbatim>\<open>sqrt(mean(abs(x - x.mean()) ** 2))\<close>.
\<close>

definition np_mean :: "real list \<Rightarrow> real option" where
  "np_mean xs = (if xs = [] then None else Some (sum_list xs / real (length xs)))"

definition np_std :: "real list \<Rightarrow> real option" where
  "np_std xs =
     (case np_mean xs of
        None \<Rightarrow> None
      | Some m \<Rightarrow> map_option sqrt (np_mean (map (\<lambda>x. \<bar>x - m\<bar> ^ 2) xs)))"

text \<open>
  \<^verbatim>\<open>forces\<close> is the \<open>N \<times> 3\<close> array of all force vectors of all samples, in order;
  \<^verbatim>\<open>np.square\<close> and \<^verbatim>\<open>np.mean\<close> run over all its \<open>3N\<close> entries.
\<close>

definition entries :: "(real \<times> real \<times> real) list \<Rightarrow> real list" where
  "entries forces = concat (map (\<lambda>(a, b, c). [a, b, c]) forces)"

definition np_square :: "real list \<Rightarrow> real list" where
  "np_square xs = map (\<lambda>x. x * x) xs"

text \<open>
  \<^verbatim>\<open>np.linalg.norm(forces, axis=-1)\<close>: one Euclidean norm per row. With no atom at all
  the array has shape \<open>(0,)\<close>, its norm along the last axis is the scalar \<open>0.0\<close>, and so
  is the mean of that scalar.
\<close>

definition np_linalg_norm :: "(real \<times> real \<times> real) list \<Rightarrow> real list" where
  "np_linalg_norm forces = map (\<lambda>(a, b, c). sqrt (a * a + b * b + c * c)) forces"

definition mean_norm :: "(real \<times> real \<times> real) list \<Rightarrow> real option" where
  "mean_norm forces = (if forces = [] then Some 0 else np_mean (np_linalg_norm forces))"

definition compute_mean_std :: "runtime \<Rightarrow> namespace \<Rightarrow> error + effect list" where
  "compute_mean_std rt args =
     and_then (start_pool rt args) (\<lambda>workers.
     and_then (getattr args ''src'') (\<lambda>src.
     and_then (getattr args ''linref_path'') (\<lambda>lin_ref.
     and_then (open_dataset rt src lin_ref) (\<lambda>ds.
     and_then (imap (mean_std_extract_data ds) [0..<length ds]) (\<lambda>outputs.
     (let energies = map (\<lambda>(y, forces). y) outputs;
          forces = concat (map (\<lambda>(y, forces). forces) outputs);
          energy_mean = np_mean energies;
          energy_std = np_std energies;
          force_rms = map_option sqrt (np_mean (np_square (entries forces)));
          force_md = mean_norm forces
      in
     and_then (getattr args ''out_path'') (\<lambda>out.
       (case out of
          PathV p \<Rightarrow> Inr [Pool_started workers,
                           Print_stats energy_mean energy_std force_rms force_md,
                           Pickle_dump p [(''energy_mean'', energy_mean),
                                          (''energy_std'', energy_std),
                                          (''force_rms'', force_rms),
                                          (''force_md'', force_md)]]
        | _ \<Rightarrow> Inl TypeError))))))))"

subsection \<open>\<^verbatim>\<open>main\<close>: the command line\<close>

text \<open>
  What \<^verbatim>\<open>main\<close> registers with argparse, as data: each subcommand with its options
  (option string, \<^verbatim>\<open>type=\<close>, \<^verbatim>\<open>default=\<close>; no default means \<^verbatim>\<open>None\<close>) and the function
  \<^verbatim>\<open>set_defaults(fn=...)\<close> attaches.
\<close>

datatype argtype = TPath | TInt

record argument =
  flag :: string
  ty :: argtype
  dflt :: argval

record subparser =
  name :: string
  arguments :: "argument list"
  set_fn :: command

definition compute_mean_std_parser :: subparser where
  "compute_mean_std_parser =
     \<lparr>name = ''compute_mean_std'',
      arguments = [\<lparr>flag = ''--src'', ty = TPath, dflt = NoneV\<rparr>,
                   \<lparr>flag = ''--out_path'', ty = TPath, dflt = NoneV\<rparr>,
                   \<lparr>flag = ''--linref_path'', ty = TPath, dflt = NoneV\<rparr>,
                   \<lparr>flag = ''--num_workers'', ty = TInt, dflt = IntV 32\<rparr>],
      set_fn = Compute_mean_std\<rparr>"

definition linref_parser :: subparser where
  "linref_parser =
     \<lparr>name = ''linref'',
      arguments = [\<lparr>flag = ''--src'', ty = TPath, dflt = NoneV\<rparr>,
                   \<lparr>flag = ''--out_path'', ty = TPath, dflt = NoneV\<rparr>,
                   \<lparr>flag = ''--num_workers'', ty = TInt, dflt = IntV 32\<rparr>],
      set_fn = Linref\<rparr>"

definition subparsers :: "subparser list" where
  "subparsers = [compute_mean_std_parser, linref_parser]"

text \<open>
  Reading \<^verbatim>\<open>sys.argv\<close> is argparse's work: it splits the tokens, completes abbreviated
  option strings and converts each value with the registered \<^verbatim>\<open>type=\<close> (\<^verbatim>\<open>Path\<close>,
  \<^verbatim>\<open>int\<close>); when it cannot, it exits before any code of the script runs. A command line is
  given here as argparse has read it: the subcommand token, if there is one, and the options
  with their converted values, in the order they were written. A path is the string of the
  \<^verbatim>\<open>Path\<close> object.
\<close>

datatype given = Src string | Out_path string | Linref_path string | Num_workers int

definition option_string :: "given \<Rightarrow> string" where
  "option_string g =
     (case g of
        Src _ \<Rightarrow> ''--src''
      | Out_path _ \<Rightarrow> ''--out_path''
      | Linref_path _ \<Rightarrow> ''--linref_path''
      | Num_workers _ \<Rightarrow> ''--num_workers'')"

definition given_value :: "given \<Rightarrow> argval" where
  "given_value g =
     (case g of
        Src p \<Rightarrow> PathV p
      | Out_path p \<Rightarrow> PathV p
      | Linref_path p \<Rightarrow> PathV p
      | Num_workers n \<Rightarrow> IntV n)"

record command_line =
  chosen :: "string option"
  options :: "given list"

text \<open>
  \<^verbatim>\<open>parser.parse_args()\<close>: the namespace starts from the defaults of the chosen subcommand
  and every option given sets its attribute, the option string without the leading dashes;
  a later one overrides an earlier one. A subcommand that is not registered, or an option the
  subcommand does not register, is an argparse error, which exits the process. Without a
  subcommand the namespace holds \<^verbatim>\<open>subcommand=None\<close> alone.
\<close>

definition dest_of :: "string \<Rightarrow> string" where
  "dest_of f = dropWhile (\<lambda>c. c = CHR ''-'') f"

fun parse_options :: "argument list \<Rightarrow> given list \<Rightarrow> namespace \<Rightarrow> error + namespace" where
  "parse_options specs [] ns = Inr ns"
| "parse_options specs (g # rest) ns =
     (case find (\<lambda>a. flag a = option_string g) specs of
        None \<Rightarrow> Inl SystemExit
      | Some a \<Rightarrow> parse_options specs rest ((dest_of (flag a), given_value g) # ns))"

definition defaults :: "subparser \<Rightarrow> namespace" where
  "defaults sp =
     map (\<lambda>a. (dest_of (flag a), dflt a)) (arguments sp) @
     [(''fn'', FnV (set_fn sp)), (''subcommand'', StrV (name sp))]"

definition parse_args :: "command_line \<Rightarrow> error + namespace" where
  "parse_args argv =
     (case chosen argv of
        None \<Rightarrow> Inr [(''subcommand'', NoneV)]
      | Some cmd \<Rightarrow>
          (case find (\<lambda>sp. name sp = cmd) subparsers of
             None \<Rightarrow> Inl SystemExit
           | Some sp \<Rightarrow> parse_options (arguments sp) (options argv) (defaults sp)))"

text \<open>\<^verbatim>\<open>args = parser.parse_args(); args.fn(args)\<close>.\<close>

definition main :: "runtime \<Rightarrow> command_line \<Rightarrow> error + effect list" where
  "main rt argv =
     (case parse_args argv of
        Inl e \<Rightarrow> Inl e
      | Inr args \<Rightarrow>
          (case getattr args ''fn'' of
             Inl e \<Rightarrow> Inl e
           | Inr f \<Rightarrow>
               (case f of
                  FnV Compute_mean_std \<Rightarrow> compute_mean_std rt args
                | FnV Linref \<Rightarrow> linref rt args
                | _ \<Rightarrow> Inl TypeError)))"

text \<open>
  The worker count a command line asks for: the value of the last \<^verbatim>\<open>--num_workers\<close> it
  gives, and the registered default 32 when it gives none.
\<close>

fun last_num_workers :: "int \<Rightarrow> given list \<Rightarrow> int" where
  "last_num_workers d [] = d"
| "last_num_workers d (Num_workers n # rest) = last_num_workers n rest"
| "last_num_workers d (_ # rest) = last_num_workers d rest"

definition requested_workers :: "given list \<Rightarrow> int" where
  "requested_workers gs = last_num_workers 32 gs"

section \<open>The statistics in the words of the specification, the feature rows in closed form\<close>

text \<open>
  The four statistics as the specification words them: the arithmetic mean and the population
  standard deviation of the per-sample energies, the square root of the mean of the squared
  force components over all atoms of all samples, and the mean Euclidean norm of the per-atom
  force vectors.
\<close>

definition arithmetic_mean :: "real list \<Rightarrow> real" where
  "arithmetic_mean xs = sum_list xs / real (length xs)"

definition population_std :: "real list \<Rightarrow> real" where
  "population_std xs =
     sqrt ((\<Sum>x\<leftarrow>xs. (x - arithmetic_mean xs)\<^sup>2) / real (length xs))"

definition atom_total :: "sample list \<Rightarrow> nat" where
  "atom_total ds = (\<Sum>d\<leftarrow>ds. length (force d))"

definition root_mean_square_force :: "sample list \<Rightarrow> real" where
  "root_mean_square_force ds =
     sqrt ((\<Sum>d\<leftarrow>ds. \<Sum>(a, b, c)\<leftarrow>force d. a\<^sup>2 + b\<^sup>2 + c\<^sup>2) / real (3 * atom_total ds))"

definition mean_force_norm :: "sample list \<Rightarrow> real" where
  "mean_force_norm ds =
     (\<Sum>d\<leftarrow>ds. \<Sum>(a, b, c)\<leftarrow>force d. sqrt (a\<^sup>2 + b\<^sup>2 + c\<^sup>2)) / real (atom_total ds)"

text \<open>
  What the float32 sum of ones leaves in a feature row: entry \<open>z\<close>, for \<open>z\<close> from 0 to 9, is
  the number of atoms of the sample whose atomic number is \<open>z\<close>, as long as that number is
  at most \<open>2\<^sup>2\<^sup>4 = 16777216\<close>, where the sum stops growing. The matrix of the regression has
  one such row per sample of the dataset.
\<close>

definition feature_row :: "nat list \<Rightarrow> int list" where
  "feature_row zs = map (\<lambda>z. int (min (count_list zs z) 16777216)) [0..<10]"

definition feature_matrix :: "sample list \<Rightarrow> int list list" where
  "feature_matrix ds = map (\<lambda>d. feature_row (atomic_numbers d)) ds"

definition ncols :: "int list list \<Rightarrow> nat" where
  "ncols X = (case X of [] \<Rightarrow> 0 | row # _ \<Rightarrow> length row)"

section \<open>A concrete run\<close>

text \<open>
  A dataset of two molecules (water and methane) on a machine with eight cores. For its
  system of two equations \<^verbatim>\<open>lstsq\<close> answers with the least-squares solution of minimum
  norm, which fits both energies exactly: \<open>- 26/21\<close> for hydrogen, \<open>- 1/21\<close> for carbon and
  \<open>- 11/21\<close> for oxygen.
\<close>

definition example_dataset :: "sample list" where
  "example_dataset =
     [\<lparr>atomic_numbers = [8, 1, 1], y = - 3, force = [(2, 0, 0), (0, 2, 0), (0, 0, 2)]\<rparr>,
      \<lparr>atomic_numbers = [6, 1, 1, 1, 1], y = - 5,
       force = [(2, 0, 0), (2, 0, 0), (2, 0, 0), (0, 0, 0), (0, 0, 0)]\<rparr>]"

definition example_runtime :: runtime where
  "example_runtime =
     \<lparr>cpu_count = 8,
      open_dataset = (\<lambda>src lin_ref. Inr example_dataset),
      lstsq = (\<lambda>X t. [0, - 26 / 21, 0, 0, 0, 0, - 1 / 21, 0, - 11 / 21, 0])\<rparr>"

text \<open>A sample with \<open>2\<^sup>2\<^sup>4 + 1\<close> hydrogen atoms.\<close>

definition huge_sample :: sample where
  "huge_sample =
     \<lparr>atomic_numbers = replicate 16777217 1, y = 0, force = replicate 16777217 (0, 0, 0)\<rparr>"

text \<open>
  The namespace argparse builds for
  \<^verbatim>\<open>linref --src data --out_path coeff.npz\<close>: the defaults, then the options given.
\<close>

definition example_linref_args :: namespace where
  "example_linref_args =
     [(''out_path'', PathV ''coeff.npz''), (''src'', PathV ''data''),
      (''src'', NoneV), (''out_path'', NoneV), (''num_workers'', IntV 32),
      (''fn'', FnV Linref), (''subcommand'', StrV ''linref'')]"

text \<open>
  The namespace argparse builds for
  \<^verbatim>\<open>compute_mean_std --src data --out_path stats.pkl\<close>.
\<close>

definition example_mean_std_args :: namespace where
  "example_mean_std_args =
     [(''out_path'', PathV ''stats.pkl''), (''src'', PathV ''data''),
      (''src'', NoneV), (''out_path'', NoneV), (''linref_path'', NoneV),
      (''num_workers'', IntV 32),
      (''fn'', FnV Compute_mean_std), (''subcommand'', StrV ''compute_mean_std'')]"

section \<open>The model \<^verbatim>\<open>EquiformerV2Backbone\<close>\<close>

subsection \<open>Calling the constructor\<close>

text \<open>
  A keyword argument is either left out of the call, and then the default of the signature
  is bound, or passed. The constructor's parameters that its own control flow reads are
  modelled; the others (\<^verbatim>\<open>use_pbc\<close>, the attention and feed-forward sizes, the dropout
  rates, ...) are stored on the object and handed to the blocks unchanged. A parameter
  annotated \<^verbatim>\<open>... | None\<close> is an option.
\<close>

datatype 'a kwarg = Omitted | Passed 'a

definition bind_kwarg :: "'a \<Rightarrow> 'a kwarg \<Rightarrow> 'a" where
  "bind_kwarg d a = (case a of Omitted \<Rightarrow> d | Passed v \<Rightarrow> v)"

record kwargs =
  kw_max_radius :: "real kwarg"
  kw_max_num_elements :: "int kwarg"
  kw_num_layers :: "int kwarg"
  kw_sphere_channels :: "int kwarg"
  kw_norm_type :: "string kwarg"
  kw_lmax_list :: "int list option kwarg"
  kw_mmax_list :: "int list option kwarg"
  kw_grid_resolution :: "int option kwarg"
  kw_edge_channels :: "int kwarg"
  kw_use_atom_edge_embedding :: "bool kwarg"
  kw_share_atom_edge_embedding :: "bool kwarg"
  kw_distance_function :: "string kwarg"
  kw_weight_init :: "string kwarg"
  kw_avg_num_nodes :: "real option kwarg"
  kw_avg_degree :: "real option kwarg"
  kw_use_energy_lin_ref :: "bool option kwarg"
  kw_load_energy_lin_ref :: "bool option kwarg"
  kw_activation_checkpoint :: "bool option kwarg"

text \<open>Python's truth value of a \<^verbatim>\<open>bool | None\<close>, and \<^verbatim>\<open>x or d\<close> on a \<^verbatim>\<open>float | None\<close>.\<close>

definition truthy :: "bool option \<Rightarrow> bool" where
  "truthy b = (case b of None \<Rightarrow> False | Some v \<Rightarrow> v)"

definition or_else :: "real option \<Rightarrow> real \<Rightarrow> real" where
  "or_else x d = (case x of None \<Rightarrow> d | Some v \<Rightarrow> if v = 0 then d else v)"

definition AVG_NUM_NODES :: real where
  "AVG_NUM_NODES = 77.81317"

definition AVG_DEGREE :: real where
  "AVG_DEGREE = 23.395238876342773"

subsection \<open>The object and its submodules\<close>

text \<open>
  The submodules the constructor creates, each with the arguments that come from the
  constructor's own computations. Creating one runs framework code, which may raise.
\<close>

datatype component =
    Sphere_embedding int int
  | Distance_expansion real
  | Source_embedding int int
  | Target_embedding int int
  | SO3_rotation int
  | Mapping_reduced "int list" "int list"
  | SO3_grid int int "int option"
  | Edge_degree_embedding int "int list" "int list" int "int list" bool real
  | Block nat
  | Norm string int int
  | Energy_lin_ref int
  | Init_weights string

datatype event = Log_error string | Built component

record backbone =
  activation_checkpoint :: "bool option"
  cutoff :: real
  max_num_elements :: int
  num_layers :: int
  sphere_channels :: int
  lmax_list :: "int list"
  mmax_list :: "int list"
  use_atom_edge_embedding :: bool
  share_atom_edge_embedding :: bool
  block_use_atom_edge_embedding :: bool
  distance_function :: string
  avg_num_nodes :: real
  avg_degree :: real
  use_energy_lin_ref :: "bool option"
  load_energy_lin_ref :: "bool option"
  weight_init :: string
  num_resolutions :: nat
  sphere_channels_all :: int
  edge_channels_list :: "int list"

text \<open>
  Creating submodules in order: \<open>fw c\<close> is \<open>None\<close> when the framework creates \<open>c\<close> and the
  message of the exception otherwise. The result is what was created and, if one failed,
  its exception.
\<close>

fun build :: "(component \<Rightarrow> string option) \<Rightarrow> component list \<Rightarrow> event list \<times> error option" where
  "build fw [] = ([], None)"
| "build fw (c # cs) =
     (case fw c of
        Some msg \<Rightarrow> ([], Some (FrameworkError msg))
      | None \<Rightarrow> (case build fw cs of (evs, r) \<Rightarrow> (Built c # evs, r)))"

text \<open>\<^verbatim>\<open>range(n)\<close> for an integer \<open>n\<close>: empty when \<open>n\<close> is not positive.\<close>

definition py_range :: "int \<Rightarrow> int list" where
  "py_range n = map int [0..<nat n]"

definition max_list :: "int list \<Rightarrow> int" where
  "max_list xs = fold max (tl xs) (hd xs)"

subsection \<open>\<^verbatim>\<open>EquiformerV2Backbone.__init__\<close>\<close>

text \<open>
  The submodules created after the last assertion, lines 282 to 396, for an object whose
  scalar attributes are set. \<^verbatim>\<open>max(self.lmax_list)\<close> raises \<^verbatim>\<open>ValueError\<close> on an empty list.
\<close>

definition first_modules :: "backbone \<Rightarrow> component list" where
  "first_modules self =
     (if share_atom_edge_embedding self \<and> use_atom_edge_embedding self
      then [Source_embedding (max_num_elements self) (last (edge_channels_list self)),
            Target_embedding (max_num_elements self) (last (edge_channels_list self))]
      else []) @
     map SO3_rotation (lmax_list self) @
     [Mapping_reduced (lmax_list self) (mmax_list self)]"

definition later_modules :: "backbone \<Rightarrow> string \<Rightarrow> int option \<Rightarrow> component list" where
  "later_modules self norm_type grid_resolution =
     concat (map (\<lambda>lval. map (\<lambda>m. SO3_grid lval m grid_resolution)
                               (py_range (max_list (lmax_list self) + 1)))
                 (py_range (max_list (lmax_list self) + 1))) @
     [Edge_degree_embedding (sphere_channels self) (lmax_list self) (mmax_list self)
        (max_num_elements self) (edge_channels_list self) (block_use_atom_edge_embedding self)
        (avg_degree self)] @
     map Block [0..<nat (num_layers self)] @
     [Norm norm_type (max_list (lmax_list self)) (sphere_channels self)] @
     (if truthy (load_energy_lin_ref self) then [Energy_lin_ref (max_num_elements self)] else []) @
     [Init_weights (weight_init self)]"

text \<open>
  The attributes the constructor assigns from its arguments, lines 192 to 271, with the final
  value of \<^verbatim>\<open>edge_channels_list\<close> (lines 294 to 308); \<open>num_output\<close> is the attribute of that
  name of the distance expansion.
\<close>

definition attributes :: "int \<Rightarrow> kwargs \<Rightarrow> backbone" where
  "attributes num_output kw =
     (let mmax = (case bind_kwarg (Some [2]) (kw_mmax_list kw) of None \<Rightarrow> [2] | Some l \<Rightarrow> l);
          lmax = (case bind_kwarg (Some [4]) (kw_lmax_list kw) of None \<Rightarrow> [6] | Some l \<Rightarrow> l);
          share = bind_kwarg False (kw_share_atom_edge_embedding kw);
          use_atom = bind_kwarg True (kw_use_atom_edge_embedding kw);
          edge_channels = bind_kwarg 128 (kw_edge_channels kw)
      in \<lparr>activation_checkpoint = bind_kwarg (Some False) (kw_activation_checkpoint kw),
          cutoff = bind_kwarg 12 (kw_max_radius kw),
          max_num_elements = bind_kwarg 90 (kw_max_num_elements kw),
          num_layers = bind_kwarg 8 (kw_num_layers kw),
          sphere_channels = bind_kwarg 128 (kw_sphere_channels kw),
          lmax_list = lmax,
          mmax_list = mmax,
          use_atom_edge_embedding = use_atom,
          share_atom_edge_embedding = share,
          block_use_atom_edge_embedding = (if share then False else use_atom),
          distance_function = bind_kwarg ''gaussian'' (kw_distance_function kw),
          avg_num_nodes = or_else (bind_kwarg None (kw_avg_num_nodes kw)) AVG_NUM_NODES,
          avg_degree = or_else (bind_kwarg None (kw_avg_degree kw)) AVG_DEGREE,
          use_energy_lin_ref = bind_kwarg (Some False) (kw_use_energy_lin_ref kw),
          load_energy_lin_ref = bind_kwarg (Some False) (kw_load_energy_lin_ref kw),
          weight_init = bind_kwarg ''uniform'' (kw_weight_init kw),
          num_resolutions = length lmax,
          sphere_channels_all = int (length lmax) * bind_kwarg 128 (kw_sphere_channels kw),
          edge_channels_list =
            (if share \<and> use_atom
             then [num_output + 2 * edge_channels, edge_channels, edge_channels]
             else [num_output, edge_channels, edge_channels])\<rparr>)"

text \<open>
  Lines 282 to 396: everything after the assertion on the distance function; \<open>ev\<close> is what
  was created before.
\<close>

definition create_modules ::
  "(component \<Rightarrow> string option) \<Rightarrow> backbone \<Rightarrow> string \<Rightarrow> int option \<Rightarrow> event list \<Rightarrow>
     event list \<times> (error + backbone)" where
  "create_modules fw self norm_type grid_resolution ev =
     (if distance_function self \<noteq> ''gaussian'' then (ev, Inl ValueError)
      else
        (case build fw (Distance_expansion (cutoff self) # first_modules self) of
           (ev2, Some e) \<Rightarrow> (ev @ ev2, Inl e)
         | (ev2, None) \<Rightarrow>
             if lmax_list self = [] then (ev @ ev2, Inl ValueError)
             else
               (case build fw (later_modules self norm_type grid_resolution) of
                  (ev3, Some e) \<Rightarrow> (ev @ ev2 @ ev3, Inl e)
                | (ev3, None) \<Rightarrow> (ev @ ev2 @ ev3, Inr self))))"

text \<open>
  The constructor: the framework \<open>fw\<close>, the attribute \<^verbatim>\<open>num_output\<close> of the distance
  expansion, the names in \<^verbatim>\<open>sys.modules\<close> and the keyword arguments of the call. It returns
  what was logged and created, and the object or the exception.
\<close>

definition init ::
  "(component \<Rightarrow> string option) \<Rightarrow> int \<Rightarrow> string list \<Rightarrow> kwargs \<Rightarrow>
     event list \<times> (error + backbone)" where
  "init fw num_output sys_modules kw =
     (let self = attributes num_output kw in
      if ''e3nn'' \<notin> set sys_modules
      then ([Log_error ''You need to install e3nn==0.4.4 to use EquiformerV2.''], Inl ImportError)
      else if share_atom_edge_embedding self \<and> \<not> use_atom_edge_embedding self
      then ([], Inl AssertionError)
      else if truthy (use_energy_lin_ref self) \<and> \<not> truthy (load_energy_lin_ref self)
      then ([], Inl AssertionError)
      else if weight_init self \<notin> set [''normal'', ''uniform''] then ([], Inl AssertionError)
      else
        (case build fw [Sphere_embedding (max_num_elements self) (sphere_channels_all self)] of
           (ev1, Some e) \<Rightarrow> (ev1, Inl e)
         | (ev1, None) \<Rightarrow>
             if distance_function self \<notin> set [''gaussian''] then (ev1, Inl AssertionError)
             else create_modules fw self (bind_kwarg ''layer_norm_sh'' (kw_norm_type kw))
                    (bind_kwarg (Some 18) (kw_grid_resolution kw)) ev1))"

text \<open>A call that passes no argument at all, and a framework in which nothing fails.\<close>

definition no_kwargs :: kwargs where
  "no_kwargs =
     \<lparr>kw_max_radius = Omitted, kw_max_num_elements = Omitted, kw_num_layers = Omitted,
      kw_sphere_channels = Omitted, kw_norm_type = Omitted, kw_lmax_list = Omitted,
      kw_mmax_list = Omitted, kw_grid_resolution = Omitted, kw_edge_channels = Omitted,
      kw_use_atom_edge_embedding = Omitted, kw_share_atom_edge_embedding = Omitted,
      kw_distance_function = Omitted, kw_weight_init = Omitted, kw_avg_num_nodes = Omitted,
      kw_avg_degree = Omitted, kw_use_energy_lin_ref = Omitted,
      kw_load_energy_lin_ref = Omitted, kw_activation_checkpoint = Omitted\<rparr>"

definition sound_framework :: "component \<Rightarrow> string option" where
  "sound_framework c = None"

text \<open>
  An invalid configuration, in the words of the specification: \<^verbatim>\<open>use_energy_lin_ref\<close> is
  true while \<^verbatim>\<open>load_energy_lin_ref\<close> is not (\<^verbatim>\<open>False\<close> or \<^verbatim>\<open>None\<close>), or
  \<^verbatim>\<open>weight_init\<close> is not one of \<^verbatim>\<open>'normal'\<close> and \<^verbatim>\<open>'uniform'\<close>, or
  \<^verbatim>\<open>distance_function\<close> is not \<^verbatim>\<open>'gaussian'\<close>, or \<^verbatim>\<open>share_atom_edge_embedding\<close> is true while
  \<^verbatim>\<open>use_atom_edge_embedding\<close> is false.
\<close>

definition invalid_configuration :: "kwargs \<Rightarrow> bool" where
  "invalid_configuration kw \<longleftrightarrow>
     (truthy (bind_kwarg (Some False) (kw_use_energy_lin_ref kw)) \<and>
      \<not> truthy (bind_kwarg (Some False) (kw_load_energy_lin_ref kw))) \<or>
     bind_kwarg ''uniform'' (kw_weight_init kw) \<notin> {''normal'', ''uniform''} \<or>
     bind_kwarg ''gaussian'' (kw_distance_function kw) \<noteq> ''gaussian'' \<or>
     (bind_kwarg False (kw_share_atom_edge_embedding kw) \<and>
      \<not> bind_kwarg True (kw_use_atom_edge_embedding kw))"

subsection \<open>\<^verbatim>\<open>EquiformerV2Backbone.forward\<close>\<close>

text \<open>
  Tensors are values of a type \<open>'t\<close> that the model does not look into, except for the
  atomic numbers, a list of integers (\<^verbatim>\<open>data.atomic_numbers.long()\<close>). The input batch and
  \<^verbatim>\<open>GraphData\<close>, with the fields \<^verbatim>\<open>forward\<close> reads.
\<close>

record 't batch =
  data_atomic_numbers :: "int list"
  main_edge_index :: 't
  main_distance :: 't
  main_vector :: 't
  main_cell_offset :: 't
  main_cell_offsets_distances :: 't
  main_num_neighbors :: 't
  batch_index :: 't

record 't graph_data =
  edge_index :: 't
  edge_distance :: 't
  edge_distance_vec :: 't
  cell_offsets :: 't
  offset_distances :: 't
  neighbors :: 't
  node_offset :: int
  batch_full :: 't
  atomic_numbers_full :: "int list"

record 't result_dict =
  node_embedding :: 't
  graph :: "'t graph_data"

text \<open>
  The framework calls of \<^verbatim>\<open>forward\<close>, in the order of the source: each is named with its
  arguments that are not tensors, takes tensors and returns a tensor or raises.
\<close>

datatype op =
    Init_edge_rot_mat
  | Set_wigner nat
  | New_SO3_Embedding nat "int list" int
  | Sphere_embedding_of "int list"
  | Slice_channels int int
  | Assign_coefficients int
  | Distance_expansion_of
  | Elements_at "int list" nat
  | Source_embedding_of
  | Target_embedding_of
  | Cat
  | Edge_degree_embedding_of "int list" nat int
  | Add_embedding
  | Run_block nat bool "int list" int
  | Final_norm

type_synonym 't torch = "op \<Rightarrow> 't list \<Rightarrow> error + 't"

text \<open>
  \<^verbatim>\<open>_init_gp_partitions\<close> (lines 554 to 589) is tensor indexing from its first line to
  its last, without a handler; it is taken as one call: from the full atomic numbers, the
  full batch index and the edges (index, distance, distance vector) to the atomic numbers,
  the batch index, the node offset and the edges of this rank. \<open>None\<close> when
  \<^verbatim>\<open>gp_utils.initialized()\<close> is false.
\<close>

type_synonym 't gp_partitions =
  "(int list \<Rightarrow> 't \<Rightarrow> 't \<Rightarrow> 't \<Rightarrow> 't \<Rightarrow> error + (int list \<times> 't \<times> int \<times> 't \<times> 't \<times> 't)) option"

text \<open>
  What a piece of \<^verbatim>\<open>forward\<close> does: the framework calls it made, in the order it made
  them, and what came out of it, a value or the exception that ended it. A call is written
  down with its arguments when it is made, whether it returns or raises.
\<close>

datatype 't call =
    Call op "'t list"
  | Init_gp_partitions "int list" 't 't 't 't

type_synonym ('t, 'a) run = "'t call list \<times> (error + 'a)"

definition returns :: "'a \<Rightarrow> ('t, 'a) run" where
  "returns x = ([], Inr x)"

definition raises :: "error \<Rightarrow> ('t, 'a) run" where
  "raises e = ([], Inl e)"

definition call :: "'t torch \<Rightarrow> op \<Rightarrow> 't list \<Rightarrow> ('t, 't) run" where
  "call torch op args = ([Call op args], torch op args)"

text \<open>
  One statement after another: the second runs on the value of the first, after it; when
  the first raises, the second does not run and the exception is that of the whole. This is
  all the control flow there is between the statements of \<^verbatim>\<open>forward\<close>, which has no
  \<^verbatim>\<open>try\<close>.
\<close>

definition then_run :: "('t, 'a) run \<Rightarrow> ('a \<Rightarrow> ('t, 'b) run) \<Rightarrow> ('t, 'b) run" where
  "then_run m f =
     (case snd m of
        Inl e \<Rightarrow> (fst m, Inl e)
      | Inr x \<Rightarrow> (fst m @ fst (f x), snd (f x)))"

text \<open>\<^verbatim>\<open>atomic_numbers.max().item()\<close>: the maximum of an empty tensor raises.\<close>

definition tensor_max :: "int list \<Rightarrow> error + int" where
  "tensor_max xs =
     (if xs = [] then Inl (FrameworkError ''max(): empty tensor'') else Inr (max_list xs))"

text \<open>The loop that sets the Wigner-D matrices of every resolution.\<close>

fun set_wigners :: "'t torch \<Rightarrow> nat list \<Rightarrow> 't \<Rightarrow> ('t, unit) run" where
  "set_wigners torch [] r = returns ()"
| "set_wigners torch (i # idxs) r =
     then_run (call torch (Set_wigner i) [r]) (\<lambda>_. set_wigners torch idxs r)"

text \<open>
  The loop that initialises the \<open>l = 0, m = 0\<close> coefficients of every resolution, with its
  two running offsets.
\<close>

fun init_coefficients ::
  "'t torch \<Rightarrow> backbone \<Rightarrow> int list \<Rightarrow> nat list \<Rightarrow> int \<Rightarrow> int \<Rightarrow> 't \<Rightarrow> ('t, 't) run" where
  "init_coefficients torch self an [] offset_res offset x = returns x"
| "init_coefficients torch self an (i # idxs) offset_res offset x =
     then_run (call torch (Sphere_embedding_of an) []) (\<lambda>emb.
     then_run (if num_resolutions self = 1 then returns emb
               else call torch (Slice_channels offset (offset + sphere_channels self)) [emb])
       (\<lambda>v.
     then_run (call torch (Assign_coefficients offset_res) [x, v]) (\<lambda>x'.
       if i < length (lmax_list self)
       then init_coefficients torch self an idxs
              (offset_res + (lmax_list self ! i + 1)\<^sup>2)
              (offset + sphere_channels self) x'
       else raises IndexError)))"

text \<open>The loop over the layers, with or without activation checkpointing.\<close>

fun run_blocks ::
  "'t torch \<Rightarrow> backbone \<Rightarrow> 't graph_data \<Rightarrow> 't \<Rightarrow> nat list \<Rightarrow> 't \<Rightarrow> ('t, 't) run" where
  "run_blocks torch self g data_batch [] x = returns x"
| "run_blocks torch self g data_batch (i # idxs) x =
     then_run (call torch (Run_block i (truthy (activation_checkpoint self))
                             (atomic_numbers_full g) (node_offset g))
                 [x, edge_distance g, edge_index g, data_batch])
       (\<lambda>x'. run_blocks torch self g data_batch idxs x')"

text \<open>The edge encoding: the distance expansion and, when shared, the atom embeddings.\<close>

definition edge_encoding :: "'t torch \<Rightarrow> backbone \<Rightarrow> 't graph_data \<Rightarrow> ('t, 't) run" where
  "edge_encoding torch self g =
     then_run (call torch Distance_expansion_of [edge_distance g]) (\<lambda>d.
       if share_atom_edge_embedding self \<and> use_atom_edge_embedding self
       then
         then_run (call torch (Elements_at (atomic_numbers_full g) 0) [edge_index g])
           (\<lambda>source_element.
         then_run (call torch (Elements_at (atomic_numbers_full g) 1) [edge_index g])
           (\<lambda>target_element.
         then_run (call torch Source_embedding_of [source_element]) (\<lambda>source_embedding.
         then_run (call torch Target_embedding_of [target_element]) (\<lambda>target_embedding.
           call torch Cat [d, source_embedding, target_embedding]))))
       else returns d)"

text \<open>
  Lines 424 to 445: with graph parallelism the tensors of this rank replace the node offset
  and the edges of the graph; without it the full tensors are used.
\<close>

definition partition_graph ::
  "'t gp_partitions \<Rightarrow> 't batch \<Rightarrow> 't graph_data \<Rightarrow>
     ('t, int list \<times> 't \<times> 't graph_data) run" where
  "partition_graph gp data g =
     (case gp of
        None \<Rightarrow> returns (data_atomic_numbers data, batch_index data, g)
      | Some init_gp_partitions \<Rightarrow>
          then_run
            ([Init_gp_partitions (atomic_numbers_full g) (batch_full g) (edge_index g)
                (edge_distance g) (edge_distance_vec g)],
             init_gp_partitions (atomic_numbers_full g) (batch_full g) (edge_index g)
                (edge_distance g) (edge_distance_vec g))
            (\<lambda>(atomic_numbers, data_batch, offset, index, distance, distance_vec).
               returns (atomic_numbers, data_batch,
                        g\<lparr>node_offset := offset, edge_index := index,
                          edge_distance := distance, edge_distance_vec := distance_vec\<rparr>)))"

text \<open>\<^verbatim>\<open>forward\<close> after its first test, lines 415 to 552.\<close>

definition forward_body ::
  "'t torch \<Rightarrow> 't gp_partitions \<Rightarrow> backbone \<Rightarrow> 't batch \<Rightarrow> ('t, 't result_dict) run" where
  "forward_body torch gp self data =
     (let g0 = \<lparr>edge_index = main_edge_index data,
                edge_distance = main_distance data,
                edge_distance_vec = main_vector data,
                cell_offsets = main_cell_offset data,
                offset_distances = main_cell_offsets_distances data,
                neighbors = main_num_neighbors data,
                node_offset = 0,
                batch_full = batch_index data,
                atomic_numbers_full = data_atomic_numbers data\<rparr>
      in
      then_run (partition_graph gp data g0) (\<lambda>(atomic_numbers, data_batch, g).
      then_run (call torch Init_edge_rot_mat [edge_distance_vec g]) (\<lambda>edge_rot_mat.
      then_run (set_wigners torch [0..<num_resolutions self] edge_rot_mat) (\<lambda>_.
      then_run (call torch (New_SO3_Embedding (length atomic_numbers) (lmax_list self)
                              (sphere_channels self)) []) (\<lambda>x.
      then_run (init_coefficients torch self atomic_numbers [0..<num_resolutions self] 0 0 x)
        (\<lambda>x.
      then_run (edge_encoding torch self g) (\<lambda>d.
      (let g = g\<lparr>edge_distance := d\<rparr> in
      then_run (call torch (Edge_degree_embedding_of (atomic_numbers_full g)
                              (length atomic_numbers) (node_offset g))
                  [edge_distance g, edge_index g]) (\<lambda>edge_degree.
      then_run (call torch Add_embedding [x, edge_degree]) (\<lambda>x.
      then_run (run_blocks torch self g data_batch [0..<nat (num_layers self)] x) (\<lambda>x.
      then_run (call torch Final_norm [x]) (\<lambda>x.
        returns \<lparr>node_embedding = x, graph = g\<rparr>))))))))))))"

text \<open>
  \<^verbatim>\<open>forward\<close>: what it prints, the framework calls it makes and what it returns, the
  dictionary, \<^verbatim>\<open>None\<close> or an exception. It also stores the batch size, dtype and device on
  the object, which nothing in its own control flow reads back. The decorator
  \<^verbatim>\<open>conditional_grad\<close>, which only chooses whether gradients are recorded, is outside the
  two source files.
\<close>

record 't outcome =
  printed :: "string list"
  calls :: "'t call list"
  result :: "error + 't result_dict option"

definition forward ::
  "'t torch \<Rightarrow> 't gp_partitions \<Rightarrow> backbone \<Rightarrow> 't batch \<Rightarrow> 't outcome" where
  "forward torch gp self data =
     (case tensor_max (data_atomic_numbers data) of
        Inl e \<Rightarrow> \<lparr>printed = [], calls = [], result = Inl e\<rparr>
      | Inr m \<Rightarrow>
          if m \<ge> max_num_elements self
          then \<lparr>printed = [''Skipping sample with atomic number exceeding the maximum''],
                calls = [], result = Inr None\<rparr>
          else (let r = then_run (forward_body torch gp self data) (\<lambda>out. returns (Some out))
                in \<lparr>printed = [], calls = fst r, result = snd r\<rparr>))"

text \<open>
  What a call that a run wrote down came to: the exception it raised, or \<open>None\<close> when it
  returned.
\<close>

definition raised :: "'t torch \<Rightarrow> 't gp_partitions \<Rightarrow> 't call \<Rightarrow> error option" where
  "raised torch gp c =
     (case c of
        Call op args \<Rightarrow> (case torch op args of Inl e \<Rightarrow> Some e | Inr _ \<Rightarrow> None)
      | Init_gp_partitions an b index distance distance_vec \<Rightarrow>
          (case gp of
             None \<Rightarrow> None
           | Some init_gp_partitions \<Rightarrow>
               (case init_gp_partitions an b index distance distance_vec of
                  Inl e \<Rightarrow> Some e
                | Inr _ \<Rightarrow> None)))"

text \<open>
  A run without a handler: every call it made returned, except that a run which ends in an
  exception either made one more call, the last, which raised that exception, or, where the
  code indexes a Python list (\<open>ix\<close>), ends in \<^verbatim>\<open>IndexError\<close>.
\<close>

definition unhandled :: "('t call \<Rightarrow> error option) \<Rightarrow> bool \<Rightarrow> ('t, 'a) run \<Rightarrow> bool" where
  "unhandled rs ix m \<longleftrightarrow>
     (case snd m of
        Inr _ \<Rightarrow> \<forall>c\<in>set (fst m). rs c = None
      | Inl e \<Rightarrow>
          (\<exists>cs c. fst m = cs @ [c] \<and> (\<forall>k\<in>set cs. rs k = None) \<and> rs c = Some e) \<or>
          ((\<forall>c\<in>set (fst m). rs c = None) \<and> e = IndexError \<and> ix))"

text \<open>
  A batch of one water molecule and a batch with one oxygen and one thorium atom, whose
  tensors are all the number 0; a framework in which every call returns the tensor 0, and
  one that runs out of memory in the third block.
\<close>

definition water_batch :: "nat batch" where
  "water_batch =
     \<lparr>data_atomic_numbers = [8, 1, 1], main_edge_index = 0, main_distance = 0, main_vector = 0,
      main_cell_offset = 0, main_cell_offsets_distances = 0, main_num_neighbors = 0,
      batch_index = 0\<rparr>"

definition example_batch :: "nat batch" where
  "example_batch = water_batch\<lparr>data_atomic_numbers := [8, 90]\<rparr>"

definition example_torch :: "nat torch" where
  "example_torch op args = Inr 0"

definition failing_torch :: "nat torch" where
  "failing_torch op args =
     (case op of
        Run_block i _ _ _ \<Rightarrow> if i = 2 then Inl (FrameworkError ''CUDA out of memory'') else Inr 0
      | _ \<Rightarrow> Inr 0)"

section \<open>Sequencing and the ordered map\<close>

lemma and_then_Inr [simp]: "and_then (Inr x) f = f x"
  by (simp add: and_then_def)

lemma and_then_Inl [simp]: "and_then (Inl e) f = Inl e"
  by (simp add: and_then_def)

lemma imap_all:
  assumes "\<forall>i\<in>set idxs. f i = Inr (g i)"
  shows "imap f idxs = Inr (map g idxs)"
  using assms by (induction idxs) auto

section \<open>The normalisation statistics\<close>

lemma parse_example_mean_std:
  "parse_args \<lparr>chosen = Some ''compute_mean_std'',
               options = [Src ''data'', Out_path ''stats.pkl'']\<rparr> =
     Inr example_mean_std_args"
  by (simp add: parse_args_def subparsers_def compute_mean_std_parser_def linref_parser_def
      defaults_def dest_of_def option_string_def given_value_def example_mean_std_args_def)

lemma imap_mean_std:
  "imap (mean_std_extract_data ds) [0..<length ds] = Inr (map (\<lambda>d. (y d, force d)) ds)"
proof -
  have "imap (mean_std_extract_data ds) [0..<length ds] =
          Inr (map (\<lambda>i. (y (ds ! i), force (ds ! i))) [0..<length ds])"
    by (rule imap_all) (simp add: mean_std_extract_data_def getitem_def)
  also have "map (\<lambda>i. (y (ds ! i), force (ds ! i))) [0..<length ds] =
             map (\<lambda>d. (y d, force d)) ds"
    by (rule nth_equalityI) simp_all
  finally show ?thesis .
qed

lemma np_mean_arithmetic: "xs \<noteq> [] \<Longrightarrow> np_mean xs = Some (arithmetic_mean xs)"
  by (simp add: np_mean_def arithmetic_mean_def)

lemma np_std_population: "xs \<noteq> [] \<Longrightarrow> np_std xs = Some (population_std xs)"
  by (simp add: np_std_def np_mean_def population_std_def arithmetic_mean_def)

lemma entries_length: "length (entries fs) = 3 * length fs"
  by (induction fs) (auto simp: entries_def)

lemma entries_squares:
  "sum_list (np_square (entries fs)) = (\<Sum>(a, b, c)\<leftarrow>fs. a\<^sup>2 + b\<^sup>2 + c\<^sup>2)"
  by (induction fs) (auto simp: entries_def np_square_def power2_eq_square)

lemma norms_sum:
  "sum_list (np_linalg_norm fs) = (\<Sum>(a, b, c)\<leftarrow>fs. sqrt (a\<^sup>2 + b\<^sup>2 + c\<^sup>2))"
  by (induction fs) (auto simp: np_linalg_norm_def power2_eq_square)

lemma sum_concat_force:
  "(\<Sum>v\<leftarrow>concat (map force ds). f v) = (\<Sum>d\<leftarrow>ds. \<Sum>v\<leftarrow>force d. f v)"
  by (induction ds) simp_all

lemma length_concat_force: "length (concat (map force ds)) = atom_total ds"
  by (induction ds) (simp_all add: atom_total_def)

lemma rms_list:
  assumes "fs \<noteq> []"
  shows "map_option sqrt (np_mean (np_square (entries fs))) =
           Some (sqrt ((\<Sum>(a, b, c)\<leftarrow>fs. a\<^sup>2 + b\<^sup>2 + c\<^sup>2) / real (3 * length fs)))"
proof -
  have "length (np_square (entries fs)) = 3 * length fs"
    by (simp add: np_square_def entries_length)
  moreover from this have "np_square (entries fs) \<noteq> []"
    using assms by auto
  ultimately show ?thesis
    by (simp add: np_mean_def entries_squares)
qed

lemma md_list:
  assumes "fs \<noteq> []"
  shows "mean_norm fs =
           Some ((\<Sum>(a, b, c)\<leftarrow>fs. sqrt (a\<^sup>2 + b\<^sup>2 + c\<^sup>2)) / real (length fs))"
proof -
  have "length (np_linalg_norm fs) = length fs"
    by (simp add: np_linalg_norm_def)
  moreover from this have "np_linalg_norm fs \<noteq> []"
    using assms by auto
  ultimately show ?thesis
    using assms by (simp add: mean_norm_def np_mean_def norms_sum)
qed

lemma atoms_nonempty:
  assumes "0 < atom_total ds"
  shows "concat (map force ds) \<noteq> []"
proof -
  have "0 < length (concat (map force ds))"
    using assms by (simp only: length_concat_force)
  then show ?thesis
    by (rule length_greater_0_conv [THEN iffD1])
qed

lemma force_rms_spec:
  assumes "0 < atom_total ds"
  shows "map_option sqrt (np_mean (np_square (entries (concat (map force ds))))) =
           Some (root_mean_square_force ds)"
  unfolding rms_list [OF atoms_nonempty [OF assms]] root_mean_square_force_def
    sum_concat_force length_concat_force ..

lemma force_md_spec:
  assumes "0 < atom_total ds"
  shows "mean_norm (concat (map force ds)) = Some (mean_force_norm ds)"
  unfolding md_list [OF atoms_nonempty [OF assms]] mean_force_norm_def
    sum_concat_force length_concat_force ..

lemma example_statistics:
  "arithmetic_mean (map y example_dataset) = - 4"
  "population_std (map y example_dataset) = 1"
  "root_mean_square_force example_dataset = 1"
  "mean_force_norm example_dataset = 3 / 2"
  by (simp_all add: arithmetic_mean_def population_std_def root_mean_square_force_def
      mean_force_norm_def atom_total_def example_dataset_def)

text \<open>
  Claim C2. \<^verbatim>\<open>_compute_mean_std\<close> writes a pickle with exactly the four entries
  \<^verbatim>\<open>energy_mean\<close>, \<^verbatim>\<open>energy_std\<close>, \<^verbatim>\<open>force_rms\<close> and \<^verbatim>\<open>force_md\<close>: the arithmetic
  mean of the per-sample energies, their population standard deviation, the square root of the
  mean of the squared force components over all atoms of all samples, and the mean Euclidean
  norm of the per-atom force vectors. The dataset has at least one sample and one atom (the
  means of nothing are \<^verbatim>\<open>nan\<close>), and the run has what it needs: at least one worker, a
  dataset that opens, an output path.
\<close>

theorem compute_mean_std_statistics:
  assumes "getattr args ''num_workers'' = Inr (IntV n)" and "1 \<le> n"
    and "getattr args ''src'' = Inr src" and "getattr args ''linref_path'' = Inr lin_ref"
    and "open_dataset rt src lin_ref = Inr ds"
    and "getattr args ''out_path'' = Inr (PathV p)"
    and "ds \<noteq> []" and "0 < atom_total ds"
  shows "compute_mean_std rt args =
           Inr [Pool_started (nat n),
                Print_stats (Some (arithmetic_mean (map y ds))) (Some (population_std (map y ds)))
                  (Some (root_mean_square_force ds)) (Some (mean_force_norm ds)),
                Pickle_dump p [(''energy_mean'', Some (arithmetic_mean (map y ds))),
                               (''energy_std'', Some (population_std (map y ds))),
                               (''force_rms'', Some (root_mean_square_force ds)),
                               (''force_md'', Some (mean_force_norm ds))]]"
proof -
  have en: "map (\<lambda>(y, forces). y) (map (\<lambda>d. (y d, force d)) ds) = map y ds"
    by (simp add: comp_def)
  have fo: "concat (map (\<lambda>(y, forces). forces) (map (\<lambda>d. (y d, force d)) ds)) =
            concat (map force ds)"
    by (simp add: comp_def)
  have ne: "map y ds \<noteq> []" using assms(7) by simp
  show ?thesis
    unfolding compute_mean_std_def
    using assms(1-6)
    by (simp add: start_pool_def mp_Pool_def imap_mean_std en fo Let_def np_mean_arithmetic [OF ne]
        np_std_population [OF ne] force_rms_spec [OF assms(8)] force_md_spec [OF assms(8)]
        del: map_map)
qed

theorem compute_mean_std_statistics_witness:
  "compute_mean_std example_runtime example_mean_std_args =
     Inr [Pool_started 32,
          Print_stats (Some (- 4)) (Some 1) (Some 1) (Some (3 / 2)),
          Pickle_dump ''stats.pkl'' [(''energy_mean'', Some (- 4)), (''energy_std'', Some 1),
                                     (''force_rms'', Some 1), (''force_md'', Some (3 / 2))]]"
proof -
  have a1: "getattr example_mean_std_args ''num_workers'' = Inr (IntV 32)"
    and a3: "getattr example_mean_std_args ''src'' = Inr (PathV ''data'')"
    and a4: "getattr example_mean_std_args ''linref_path'' = Inr NoneV"
    and a6: "getattr example_mean_std_args ''out_path'' = Inr (PathV ''stats.pkl'')"
    by (simp_all add: getattr_def example_mean_std_args_def)
  have a5: "open_dataset example_runtime (PathV ''data'') NoneV = Inr example_dataset"
    by (simp add: example_runtime_def)
  have a7: "example_dataset \<noteq> []" by (simp add: example_dataset_def)
  have a8: "0 < atom_total example_dataset"
    by (simp add: atom_total_def example_dataset_def)
  from compute_mean_std_statistics [OF a1 _ a3 a4 a5 a6 a7 a8]
  show ?thesis
    unfolding example_statistics by simp
qed

section \<open>The feature rows of the linear reference\<close>

lemma bit_length_le: "n < 2 ^ k \<Longrightarrow> bit_length n \<le> k"
proof (induction k arbitrary: n)
  case 0
  then show ?case by (simp add: bit_length.simps)
next
  case (Suc k)
  show ?case
  proof (cases "n = 0")
    case True
    then show ?thesis by (simp add: bit_length.simps)
  next
    case False
    from Suc.prems have "n div 2 < 2 ^ k" by simp
    from Suc.IH [OF this] False show ?thesis by (subst bit_length.simps) simp
  qed
qed

lemma round_f32_small:
  assumes "\<bar>v\<bar> < 16777216"
  shows "round_f32 v = v"
proof -
  have "nat \<bar>v\<bar> < 2 ^ 24" using assms by simp
  then have "bit_length (nat \<bar>v\<bar>) - 24 = 0"
    using bit_length_le [of "nat \<bar>v\<bar>" 24] by simp
  then show ?thesis
    by (simp add: round_f32_def Let_def mult_sgn_abs)
qed

lemma bit_length_eq: "2 ^ k \<le> n \<Longrightarrow> n < 2 ^ Suc k \<Longrightarrow> bit_length n = Suc k"
proof (induction k arbitrary: n)
  case 0
  then have "n = 1" by simp
  then show ?case by (simp add: bit_length.simps)
next
  case (Suc k)
  from Suc.prems have "2 ^ k \<le> n div 2" "n div 2 < 2 ^ Suc k" by simp_all
  from Suc.IH [OF this] Suc.prems show ?case
    by (subst bit_length.simps) auto
qed

lemma bit_length_2p24: "bit_length 16777216 = 25" "bit_length 16777217 = 25"
  using bit_length_eq [of 24 16777216] bit_length_eq [of 24 16777217] by simp_all

lemma round_f32_2p24: "round_f32 16777216 = 16777216" "round_f32 16777217 = 16777216"
  by (simp_all add: round_f32_def Let_def bit_length_2p24)

lemma f32_add_one:
  assumes "0 \<le> a" and "a \<le> 16777216"
  shows "f32_add a 1 = min (a + 1) 16777216"
proof -
  consider "a + 1 < 16777216" | "a + 1 = 16777216" | "a + 1 = 16777217"
    using assms by linarith
  then show ?thesis
  proof cases
    case 1
    with assms have "\<bar>a + 1\<bar> < 16777216" by simp
    from round_f32_small [OF this] 1 show ?thesis by (simp add: f32_add_def)
  next
    case 2
    show ?thesis unfolding f32_add_def 2 round_f32_2p24 by simp
  next
    case 3
    show ?thesis unfolding f32_add_def 3 round_f32_2p24 by simp
  qed
qed

lemma scatter_add_length:
  "scatter_add out src index = Inr r \<Longrightarrow> length r = length out"
  by (induction out src index rule: scatter_add.induct) (auto split: if_splits)

lemma scatter_add_ones:
  assumes "\<forall>z\<in>set zs. z < length out"
    and "\<forall>v\<in>set out. 0 \<le> v \<and> v \<le> 16777216"
  shows "scatter_add out (replicate (length zs) 1) (map int zs) =
           Inr (map (\<lambda>k. min (out ! k + int (count_list zs k)) 16777216) [0..<length out])"
  using assms
proof (induction zs arbitrary: out)
  case Nil
  have "map (\<lambda>k. min (out ! k + int (count_list [] k)) 16777216) [0..<length out] = out"
    using Nil.prems(2) by (intro nth_equalityI) (simp_all add: min_def)
  then show ?case by simp
next
  case (Cons z zs)
  let ?out = "out[z := min (out ! z + 1) 16777216]"
  have zlt: "z < length out" using Cons.prems(1) by simp
  then have zin: "0 \<le> out ! z \<and> out ! z \<le> 16777216"
    using Cons.prems(2) nth_mem by blast
  have step: "f32_add (out ! z) 1 = min (out ! z + 1) 16777216"
    using zin by (intro f32_add_one) simp_all
  have rest: "\<forall>k\<in>set zs. k < length ?out"
    using Cons.prems(1) by simp
  have range: "\<forall>v\<in>set ?out. 0 \<le> v \<and> v \<le> 16777216"
  proof
    fix v assume "v \<in> set ?out"
    then have "v \<in> insert (min (out ! z + 1) 16777216) (set out)"
      using set_update_subset_insert by fastforce
    with Cons.prems(2) zin show "0 \<le> v \<and> v \<le> 16777216" by auto
  qed
  have "scatter_add out (replicate (length (z # zs)) 1) (map int (z # zs)) =
          scatter_add ?out (replicate (length zs) 1) (map int zs)"
    using zlt step by simp
  also have "\<dots> = Inr (map (\<lambda>k. min (?out ! k + int (count_list zs k)) 16777216)
                           [0..<length ?out])"
    by (rule Cons.IH [OF rest range])
  also have "map (\<lambda>k. min (?out ! k + int (count_list zs k)) 16777216) [0..<length ?out] =
             map (\<lambda>k. min (out ! k + int (count_list (z # zs) k)) 16777216) [0..<length out]"
    using zlt by (intro nth_equalityI) (auto simp: nth_list_update min_def)
  finally show ?case .
qed

lemma scatter_counts:
  assumes "\<forall>z\<in>set zs. z < 10"
  shows "scatter (torch_ones (length zs)) (long_of_nat zs) 10 = Inr (feature_row zs)"
proof -
  have a: "\<forall>z\<in>set zs. z < length (replicate 10 (0::int))" using assms by simp
  have b: "\<forall>v\<in>set (replicate 10 (0::int)). 0 \<le> v \<and> v \<le> 16777216" by simp
  have "map (\<lambda>k. min (replicate 10 (0::int) ! k + int (count_list zs k)) 16777216)
          [0..<length (replicate 10 (0::int))] = feature_row zs"
    unfolding feature_row_def by (intro nth_equalityI) (simp_all add: min_def)
  with scatter_add_ones [OF a b] show ?thesis
    by (simp add: scatter_def torch_ones_def long_of_nat_def)
qed

lemma feature_row_length: "length (feature_row zs) = 10"
  by (simp add: feature_row_def)

lemma extract_row:
  assumes "idx < length ds" and "\<forall>z\<in>set (atomic_numbers (ds ! idx)). z < 10"
  shows "linref_extract_data ds idx =
           Inr (feature_row (atomic_numbers (ds ! idx)), y (ds ! idx), force (ds ! idx))"
  using assms
  by (simp add: linref_extract_data_def getitem_def scatter_counts long_of_float_def)

lemma count_sum:
  assumes "\<forall>z\<in>set zs. z < n"
  shows "sum_list (map (\<lambda>k. int (count_list zs k)) [0..<n]) = int (length zs)"
  using assms
proof (induction zs)
  case Nil
  then show ?case by simp
next
  case (Cons z zs)
  have "sum_list (map (\<lambda>k. int (count_list (z # zs) k)) [0..<n]) =
        (\<Sum>k = 0..<n. int (count_list zs k) + (if z = k then 1 else 0))"
    by (simp add: interv_sum_list_conv_sum_set_nat if_distrib cong: if_cong)
       (rule sum.cong, auto)
  also have "\<dots> = (\<Sum>k = 0..<n. int (count_list zs k)) + (\<Sum>k = 0..<n. if z = k then 1 else 0)"
    by (simp add: sum.distrib)
  also have "(\<Sum>k = 0..<n. if z = k then 1 else 0) = (1::int)"
    using Cons.prems by simp
  also have "(\<Sum>k = 0..<n. int (count_list zs k)) = int (length zs)"
    using Cons by (simp add: interv_sum_list_conv_sum_set_nat)
  finally show ?case by simp
qed

lemma feature_row_exact:
  assumes "\<forall>z<10. count_list zs z \<le> 16777216"
  shows "feature_row zs = map (\<lambda>z. int (count_list zs z)) [0..<10]"
  unfolding feature_row_def using assms by (intro nth_equalityI) (simp_all add: min_def)

lemma imap_extract:
  assumes "\<forall>d\<in>set ds. \<forall>z\<in>set (atomic_numbers d). z < 10"
  shows "imap (linref_extract_data ds) [0..<length ds] =
           Inr (map (\<lambda>d. (feature_row (atomic_numbers d), y d, force d)) ds)"
proof -
  have "imap (linref_extract_data ds) [0..<length ds] =
          Inr (map (\<lambda>i. (feature_row (atomic_numbers (ds ! i)), y (ds ! i), force (ds ! i)))
                   [0..<length ds])"
  proof (rule imap_all, rule ballI)
    fix i assume "i \<in> set [0..<length ds]"
    then have i: "i < length ds" by simp
    then have "\<forall>z\<in>set (atomic_numbers (ds ! i)). z < 10" using assms nth_mem by blast
    with i show "linref_extract_data ds i =
        Inr (feature_row (atomic_numbers (ds ! i)), y (ds ! i), force (ds ! i))"
      by (rule extract_row)
  qed
  also have "map (\<lambda>i. (feature_row (atomic_numbers (ds ! i)), y (ds ! i), force (ds ! i)))
                 [0..<length ds] =
             map (\<lambda>d. (feature_row (atomic_numbers d), y d, force d)) ds"
    by (rule nth_equalityI) simp_all
  finally show ?thesis .
qed

lemma np_vstack_features:
  "ds \<noteq> [] \<Longrightarrow> np_vstack (feature_matrix ds) = Inr (feature_matrix ds)"
  by (cases ds) (simp_all add: np_vstack_def feature_matrix_def list_all_iff feature_row_length)

lemma ncols_features: "ds \<noteq> [] \<Longrightarrow> ncols (feature_matrix ds) = 10"
  by (cases ds) (simp_all add: ncols_def feature_matrix_def feature_row_length)

lemma linref_run:
  assumes "start_pool rt args = Inr workers"
    and "getattr args ''src'' = Inr src" and "open_dataset rt src NoneV = Inr ds"
    and "ds \<noteq> []" and "\<forall>d\<in>set ds. \<forall>z\<in>set (atomic_numbers d). z < 10"
    and "getattr args ''out_path'' = Inr (PathV p)"
  shows "linref rt args =
           Inr [Pool_started workers,
                Savez_compressed (npz_file p)
                  [(''coeff'', lstsq rt (feature_matrix ds) (map y ds))],
                Print_saved p]"
proof -
  have feats: "map (\<lambda>x. fst x) (map (\<lambda>d. (feature_row (atomic_numbers d), y d, force d)) ds) =
               feature_matrix ds"
    by (simp add: feature_matrix_def comp_def)
  have targs: "map (\<lambda>x. fst (snd x))
                 (map (\<lambda>d. (feature_row (atomic_numbers d), y d, force d)) ds) = map y ds"
    by (simp add: comp_def)
  show ?thesis
    unfolding linref_def
    using assms(1-4,6)
    by (simp add: imap_extract [OF assms(5)] feats targs np_vstack_features Let_def
        del: map_map)
qed

lemma start_pool_workers:
  "getattr args ''num_workers'' = Inr (IntV n) \<Longrightarrow>
     start_pool rt args = (if n < 1 then Inl ValueError else Inr (nat n))"
  by (simp add: start_pool_def mp_Pool_def)

lemma count_list_replicate: "count_list (replicate n x) k = (if x = k then n else 0)"
  by (induction n) auto

lemma example_matrix:
  "feature_matrix example_dataset =
     [[0, 2, 0, 0, 0, 0, 0, 0, 1, 0], [0, 4, 0, 0, 0, 0, 1, 0, 0, 0]]"
  by (simp add: feature_matrix_def feature_row_def example_dataset_def upt_rec)

lemma example_small: "\<forall>d\<in>set example_dataset. \<forall>z\<in>set (atomic_numbers d). z < 10"
  by (simp add: example_dataset_def)

lemma huge_row:
  "feature_row (atomic_numbers huge_sample) = [0, 16777216, 0, 0, 0, 0, 0, 0, 0, 0]"
  by (simp add: feature_row_def huge_sample_def count_list_replicate upt_rec)

text \<open>
  Claim C9 as stated fails: the row is summed in single precision, \<^verbatim>\<open>torch.ones\<close> being
  \<^verbatim>\<open>float32\<close>, where \<open>16777216 + 1\<close> is \<open>16777216\<close>. For a sample of \<open>16777217\<close>
  hydrogen atoms, all of atomic number 1, the entry of hydrogen is \<open>16777216\<close>, which is not
  the number of atoms with atomic number 1.
\<close>

theorem linref_feature_row_counterexample:
  "linref_extract_data [huge_sample] 0 =
     Inr ([0, 16777216, 0, 0, 0, 0, 0, 0, 0, 0], y huge_sample, force huge_sample) \<and>
   set (atomic_numbers huge_sample) = {1} \<and>
   count_list (atomic_numbers huge_sample) 1 = 16777217"
proof -
  have small: "\<forall>z\<in>set (atomic_numbers ([huge_sample] ! 0)). z < 10"
    by (simp add: huge_sample_def)
  have "linref_extract_data [huge_sample] 0 =
      Inr (feature_row (atomic_numbers ([huge_sample] ! 0)), y ([huge_sample] ! 0),
           force ([huge_sample] ! 0))"
    by (rule extract_row [OF _ small]) simp
  then show ?thesis
    by (simp add: huge_row) (simp add: huge_sample_def count_list_replicate)
qed

text \<open>
  Claim C9, as amended. In \<^verbatim>\<open>_linref\<close>, for every dataset sample whose atomic numbers are
  all less than 10, \<^verbatim>\<open>extract_data\<close> returns a feature row of exactly 10 entries whose
  entry \<open>z\<close> is the number of atoms of the sample with atomic number \<open>z\<close>, capped at
  \<open>16777216\<close>; so for a sample with at most \<open>16777216\<close> atoms of each element the entry is
  that number and the entries of the row add up to the number of atoms of the sample. When
  the whole run goes through (a pool, a dataset that opens and is not empty, all atomic
  numbers below 10, an output path) and \<^verbatim>\<open>lstsq\<close> returns one coefficient per column of
  the matrix it is given, the array saved under \<^verbatim>\<open>coeff\<close> is what \<^verbatim>\<open>lstsq\<close> returned for
  the matrix of these rows and the energies, and it has exactly 10 entries.
\<close>

theorem linref_feature_row:
  "(\<forall>idx<length ds. (\<forall>z\<in>set (atomic_numbers (ds ! idx)). z < 10) \<longrightarrow>
      (\<exists>x. linref_extract_data ds idx = Inr (x, y (ds ! idx), force (ds ! idx)) \<and>
           length x = 10 \<and>
           (\<forall>z<10. x ! z = int (min (count_list (atomic_numbers (ds ! idx)) z) 16777216)) \<and>
           ((\<forall>z<10. count_list (atomic_numbers (ds ! idx)) z \<le> 16777216) \<longrightarrow>
              (\<forall>z<10. x ! z = int (count_list (atomic_numbers (ds ! idx)) z)) \<and>
              sum_list x = int (length (atomic_numbers (ds ! idx)))))) \<and>
   (start_pool rt args = Inr workers \<and>
    getattr args ''src'' = Inr src \<and> open_dataset rt src NoneV = Inr ds \<and> ds \<noteq> [] \<and>
    (\<forall>d\<in>set ds. \<forall>z\<in>set (atomic_numbers d). z < 10) \<and>
    getattr args ''out_path'' = Inr (PathV p) \<and>
    length (lstsq rt (feature_matrix ds) (map y ds)) = ncols (feature_matrix ds) \<longrightarrow>
      (\<exists>coeff. linref rt args =
                 Inr [Pool_started workers, Savez_compressed (npz_file p) [(''coeff'', coeff)],
                      Print_saved p] \<and>
               coeff = lstsq rt (feature_matrix ds) (map y ds) \<and> length coeff = 10))"
proof (intro conjI allI impI)
  fix idx
  assume idx: "idx < length ds" and small: "\<forall>z\<in>set (atomic_numbers (ds ! idx)). z < 10"
  let ?zs = "atomic_numbers (ds ! idx)"
  have row: "linref_extract_data ds idx = Inr (feature_row ?zs, y (ds ! idx), force (ds ! idx))"
    using idx small by (rule extract_row)
  have entry: "\<forall>z<10. feature_row ?zs ! z = int (min (count_list ?zs z) 16777216)"
    by (simp add: feature_row_def)
  have exact: "(\<forall>z<10. feature_row ?zs ! z = int (count_list ?zs z)) \<and>
               sum_list (feature_row ?zs) = int (length ?zs)"
    if "\<forall>z<10. count_list ?zs z \<le> 16777216"
    unfolding feature_row_exact [OF that] using count_sum [OF small] by simp
  show "\<exists>x. linref_extract_data ds idx = Inr (x, y (ds ! idx), force (ds ! idx)) \<and>
           length x = 10 \<and>
           (\<forall>z<10. x ! z = int (min (count_list ?zs z) 16777216)) \<and>
           ((\<forall>z<10. count_list ?zs z \<le> 16777216) \<longrightarrow>
              (\<forall>z<10. x ! z = int (count_list ?zs z)) \<and> sum_list x = int (length ?zs))"
    using row entry exact feature_row_length by blast
next
  assume pre: "start_pool rt args = Inr workers \<and>
    getattr args ''src'' = Inr src \<and> open_dataset rt src NoneV = Inr ds \<and> ds \<noteq> [] \<and>
    (\<forall>d\<in>set ds. \<forall>z\<in>set (atomic_numbers d). z < 10) \<and>
    getattr args ''out_path'' = Inr (PathV p) \<and>
    length (lstsq rt (feature_matrix ds) (map y ds)) = ncols (feature_matrix ds)"
  then have run: "linref rt args =
      Inr [Pool_started workers,
           Savez_compressed (npz_file p) [(''coeff'', lstsq rt (feature_matrix ds) (map y ds))],
           Print_saved p]"
    by (intro linref_run) blast+
  have "ncols (feature_matrix ds) = 10"
    using pre by (intro ncols_features) blast
  then have "length (lstsq rt (feature_matrix ds) (map y ds)) = 10"
    using pre by simp
  with run show "\<exists>coeff. linref rt args =
                 Inr [Pool_started workers, Savez_compressed (npz_file p) [(''coeff'', coeff)],
                      Print_saved p] \<and>
               coeff = lstsq rt (feature_matrix ds) (map y ds) \<and> length coeff = 10"
    by blast
qed

lemma example_linref_attrs:
  "getattr example_linref_args ''num_workers'' = Inr (IntV 32)"
  "getattr example_linref_args ''src'' = Inr (PathV ''data'')"
  "getattr example_linref_args ''out_path'' = Inr (PathV ''coeff.npz'')"
  "getattr example_linref_args ''fn'' = Inr (FnV Linref)"
  by (simp_all add: getattr_def example_linref_args_def)

lemma example_lstsq:
  "lstsq example_runtime X t = [0, - 26 / 21, 0, 0, 0, 0, - 1 / 21, 0, - 11 / 21, 0]"
  by (simp add: example_runtime_def)

lemma npz_names: "npz_file ''coeff.npz'' = ''coeff.npz''" "npz_file ''coeff'' = ''coeff.npz''"
  by (simp_all add: npz_file_def endswith_def)

theorem linref_feature_row_witness:
  "(\<exists>x. linref_extract_data example_dataset 0 =
           Inr (x, - 3, [(2, 0, 0), (0, 2, 0), (0, 0, 2)]) \<and>
        length x = 10 \<and> x ! 1 = 2 \<and> x ! 8 = 1 \<and> x ! 6 = 0 \<and> sum_list x = 3) \<and>
   (\<exists>coeff. linref example_runtime example_linref_args =
              Inr [Pool_started 32, Savez_compressed ''coeff.npz'' [(''coeff'', coeff)],
                   Print_saved ''coeff.npz''] \<and>
            length coeff = 10)"
proof
  have small: "\<forall>z\<in>set (atomic_numbers (example_dataset ! 0)). z < 10"
    by (simp add: example_dataset_def)
  have bound: "\<forall>z<10. count_list (atomic_numbers (example_dataset ! 0)) z \<le> 16777216"
    by (simp add: example_dataset_def)
  have len: "0 < length example_dataset" by (simp add: example_dataset_def)
  from linref_feature_row [of example_dataset] len small bound obtain x where
    x: "linref_extract_data example_dataset 0 =
          Inr (x, y (example_dataset ! 0), force (example_dataset ! 0))"
       "length x = 10"
       "\<forall>z<10. x ! z = int (count_list (atomic_numbers (example_dataset ! 0)) z)"
       "sum_list x = int (length (atomic_numbers (example_dataset ! 0)))"
    by blast
  from x(3) have "x ! 1 = 2" "x ! 8 = 1" "x ! 6 = 0"
    by (simp_all add: example_dataset_def)
  with x(1,2,4) show "\<exists>x. linref_extract_data example_dataset 0 =
           Inr (x, - 3, [(2, 0, 0), (0, 2, 0), (0, 0, 2)]) \<and>
        length x = 10 \<and> x ! 1 = 2 \<and> x ! 8 = 1 \<and> x ! 6 = 0 \<and> sum_list x = 3"
    by (simp add: example_dataset_def)
next
  have pool: "start_pool example_runtime example_linref_args = Inr 32"
    by (simp add: start_pool_workers [OF example_linref_attrs(1)])
  have "start_pool example_runtime example_linref_args = Inr 32 \<and>
    getattr example_linref_args ''src'' = Inr (PathV ''data'') \<and>
    open_dataset example_runtime (PathV ''data'') NoneV = Inr example_dataset \<and>
    example_dataset \<noteq> [] \<and>
    (\<forall>d\<in>set example_dataset. \<forall>z\<in>set (atomic_numbers d). z < 10) \<and>
    getattr example_linref_args ''out_path'' = Inr (PathV ''coeff.npz'') \<and>
    length (lstsq example_runtime (feature_matrix example_dataset) (map y example_dataset)) =
      ncols (feature_matrix example_dataset)"
    using example_small pool example_linref_attrs
    by (simp add: example_lstsq example_matrix ncols_def)
       (simp add: example_runtime_def example_dataset_def)
  with linref_feature_row [of example_dataset example_runtime example_linref_args 32
      "PathV ''data''" "''coeff.npz''"]
  show "\<exists>coeff. linref example_runtime example_linref_args =
              Inr [Pool_started 32, Savez_compressed ''coeff.npz'' [(''coeff'', coeff)],
                   Print_saved ''coeff.npz''] \<and>
            length coeff = 10"
    by (simp add: npz_names)
qed

section \<open>The command line and the worker pool\<close>

lemma compute_mean_std_run:
  assumes "start_pool rt args = Inr workers"
    and "getattr args ''src'' = Inr src" and "getattr args ''linref_path'' = Inr lin_ref"
    and "open_dataset rt src lin_ref = Inr ds"
    and "getattr args ''out_path'' = Inr (PathV p)"
  shows "compute_mean_std rt args =
           Inr [Pool_started workers,
                Print_stats (np_mean (map y ds)) (np_std (map y ds))
                  (map_option sqrt (np_mean (np_square (entries (concat (map force ds))))))
                  (mean_norm (concat (map force ds))),
                Pickle_dump p
                  [(''energy_mean'', np_mean (map y ds)),
                   (''energy_std'', np_std (map y ds)),
                   (''force_rms'',
                    map_option sqrt (np_mean (np_square (entries (concat (map force ds)))))),
                   (''force_md'', mean_norm (concat (map force ds)))]]"
proof -
  have en: "map (\<lambda>(y, forces). y) (map (\<lambda>d. (y d, force d)) ds) = map y ds"
    by (simp add: comp_def)
  have fo: "concat (map (\<lambda>(y, forces). forces) (map (\<lambda>d. (y d, force d)) ds)) =
            concat (map force ds)"
    by (simp add: comp_def)
  show ?thesis
    unfolding compute_mean_std_def
    using assms
    by (simp add: imap_mean_std en fo Let_def del: map_map)
qed

lemma registered_dest:
  assumes "sp \<in> set subparsers" and "a \<in> set (arguments sp)"
  shows "dest_of (flag a) \<noteq> ''fn''"
    and "dest_of (flag a) = ''num_workers'' \<longleftrightarrow> flag a = ''--num_workers''"
  using assms
  by (auto simp: subparsers_def compute_mean_std_parser_def linref_parser_def dest_of_def)

lemma parse_options_keeps_fn:
  assumes "parse_options specs gs ns = Inr args"
    and "\<forall>a\<in>set specs. dest_of (flag a) \<noteq> ''fn''"
  shows "map_of args ''fn'' = map_of ns ''fn''"
  using assms
proof (induction specs gs ns rule: parse_options.induct)
  case (1 specs ns)
  then show ?case by simp
next
  case (2 specs g rest ns)
  from "2.prems"(1) obtain a where
    a: "find (\<lambda>a. flag a = option_string g) specs = Some a"
    and rest: "parse_options specs rest ((dest_of (flag a), given_value g) # ns) = Inr args"
    by (auto split: option.splits)
  from a have "a \<in> set specs" by (auto simp: find_Some_iff)
  with "2.prems"(2) have "dest_of (flag a) \<noteq> ''fn''" by blast
  with "2.IH" [OF a rest "2.prems"(2)] show ?case by simp
qed

lemma parse_options_num_workers:
  assumes "parse_options specs gs ns = Inr args"
    and "\<forall>a\<in>set specs. dest_of (flag a) = ''num_workers'' \<longleftrightarrow> flag a = ''--num_workers''"
    and "map_of ns ''num_workers'' = Some (IntV d)"
  shows "map_of args ''num_workers'' = Some (IntV (last_num_workers d gs))"
  using assms
proof (induction specs gs ns arbitrary: d rule: parse_options.induct)
  case (1 specs ns)
  then show ?case by simp
next
  case (2 specs g rest ns)
  from "2.prems"(1) obtain a where
    a: "find (\<lambda>a. flag a = option_string g) specs = Some a"
    and rest: "parse_options specs rest ((dest_of (flag a), given_value g) # ns) = Inr args"
    by (auto split: option.splits)
  from a have mem: "a \<in> set specs" and fl: "flag a = option_string g"
    by (auto simp: find_Some_iff)
  show ?case
  proof (cases g)
    case (Num_workers n)
    with fl mem "2.prems"(2) have "dest_of (flag a) = ''num_workers''"
      by (simp add: option_string_def dest_of_def)
    then have "map_of ((dest_of (flag a), given_value g) # ns) ''num_workers'' = Some (IntV n)"
      using Num_workers by (simp add: given_value_def)
    from "2.IH" [OF a rest "2.prems"(2) this] Num_workers show ?thesis by simp
  next
    case (Src p)
    with fl mem "2.prems"(2) have "dest_of (flag a) \<noteq> ''num_workers''"
      by (simp add: option_string_def dest_of_def)
    then have "map_of ((dest_of (flag a), given_value g) # ns) ''num_workers'' = Some (IntV d)"
      using "2.prems"(3) by simp
    from "2.IH" [OF a rest "2.prems"(2) this] Src show ?thesis by simp
  next
    case (Out_path p)
    with fl mem "2.prems"(2) have "dest_of (flag a) \<noteq> ''num_workers''"
      by (simp add: option_string_def dest_of_def)
    then have "map_of ((dest_of (flag a), given_value g) # ns) ''num_workers'' = Some (IntV d)"
      using "2.prems"(3) by simp
    from "2.IH" [OF a rest "2.prems"(2) this] Out_path show ?thesis by simp
  next
    case (Linref_path p)
    with fl mem "2.prems"(2) have "dest_of (flag a) \<noteq> ''num_workers''"
      by (simp add: option_string_def dest_of_def)
    then have "map_of ((dest_of (flag a), given_value g) # ns) ''num_workers'' = Some (IntV d)"
      using "2.prems"(3) by simp
    from "2.IH" [OF a rest "2.prems"(2) this] Linref_path show ?thesis by simp
  qed
qed

lemma parse_args_subparser:
  assumes "chosen argv = Some cmd" and "parse_args argv = Inr args"
  obtains sp where "sp \<in> set subparsers" and "name sp = cmd"
    and "parse_options (arguments sp) (options argv) (defaults sp) = Inr args"
proof -
  from assms obtain sp where sp: "find (\<lambda>sp. name sp = cmd) subparsers = Some sp"
    and po: "parse_options (arguments sp) (options argv) (defaults sp) = Inr args"
    by (auto simp: parse_args_def split: option.splits)
  from sp have "sp \<in> set subparsers" "name sp = cmd"
    by (auto simp: find_Some_iff)
  with po that show ?thesis by blast
qed

lemma parse_args_fn:
  assumes "chosen argv = Some cmd" and "parse_args argv = Inr args"
  shows "cmd = ''compute_mean_std'' \<and> getattr args ''fn'' = Inr (FnV Compute_mean_std) \<or>
         cmd = ''linref'' \<and> getattr args ''fn'' = Inr (FnV Linref)"
proof -
  from assms obtain sp where sp: "sp \<in> set subparsers" and nm: "name sp = cmd"
    and po: "parse_options (arguments sp) (options argv) (defaults sp) = Inr args"
    by (rule parse_args_subparser)
  have "\<forall>a\<in>set (arguments sp). dest_of (flag a) \<noteq> ''fn''"
    using registered_dest(1) [OF sp] by blast
  from parse_options_keeps_fn [OF po this]
  have fn: "map_of args ''fn'' = map_of (defaults sp) ''fn''" .
  from sp have "sp = compute_mean_std_parser \<or> sp = linref_parser"
    by (simp add: subparsers_def)
  then show ?thesis
  proof
    assume "sp = compute_mean_std_parser"
    with fn nm show ?thesis
      by (simp add: getattr_def defaults_def compute_mean_std_parser_def dest_of_def)
  next
    assume "sp = linref_parser"
    with fn nm show ?thesis
      by (simp add: getattr_def defaults_def linref_parser_def dest_of_def)
  qed
qed

lemma parse_args_num_workers:
  assumes "chosen argv = Some cmd" and "parse_args argv = Inr args"
  shows "getattr args ''num_workers'' = Inr (IntV (requested_workers (options argv)))"
proof -
  from assms obtain sp where sp: "sp \<in> set subparsers"
    and po: "parse_options (arguments sp) (options argv) (defaults sp) = Inr args"
    by (rule parse_args_subparser)
  have a: "\<forall>a\<in>set (arguments sp). dest_of (flag a) = ''num_workers'' \<longleftrightarrow>
             flag a = ''--num_workers''"
    using registered_dest(2) [OF sp] by blast
  from sp have "map_of (defaults sp) ''num_workers'' = Some (IntV 32)"
    by (auto simp: subparsers_def compute_mean_std_parser_def linref_parser_def defaults_def
        dest_of_def)
  from parse_options_num_workers [OF po a this] show ?thesis
    by (simp add: getattr_def requested_workers_def)
qed

lemma main_dispatch:
  assumes "parse_args argv = Inr args"
  shows "chosen argv = Some ''compute_mean_std'' \<Longrightarrow> main rt argv = compute_mean_std rt args"
    and "chosen argv = Some ''linref'' \<Longrightarrow> main rt argv = linref rt args"
  using parse_args_fn [OF _ assms] assms
  by (auto simp: main_def)





lemma example_reductions:
  "np_mean (map y example_dataset) = Some (- 4)"
  "np_std (map y example_dataset) = Some 1"
  "map_option sqrt (np_mean (np_square (entries (concat (map force example_dataset))))) = Some 1"
  "mean_norm (concat (map force example_dataset)) = Some (3 / 2)"
proof -
  have ne: "map y example_dataset \<noteq> []" by (simp add: example_dataset_def)
  have at: "0 < atom_total example_dataset" by (simp add: atom_total_def example_dataset_def)
  show "np_mean (map y example_dataset) = Some (- 4)"
    by (simp add: np_mean_arithmetic [OF ne] example_statistics)
  show "np_std (map y example_dataset) = Some 1"
    by (simp add: np_std_population [OF ne] example_statistics)
  show "map_option sqrt (np_mean (np_square (entries (concat (map force example_dataset))))) =
          Some 1"
    by (simp only: force_rms_spec [OF at] example_statistics)
  show "mean_norm (concat (map force example_dataset)) = Some (3 / 2)"
    by (simp only: force_md_spec [OF at] example_statistics)
qed


lemma last_num_workers_append:
  "last_num_workers d (gs @ Num_workers n # rest) = last_num_workers n rest"
  by (induction d gs rule: last_num_workers.induct) simp_all

lemma last_num_workers_absent:
  "\<forall>g\<in>set gs. \<forall>n. g \<noteq> Num_workers n \<Longrightarrow> last_num_workers d gs = d"
  by (induction d gs rule: last_num_workers.induct) simp_all

lemma main_pool_error:
  assumes "chosen argv = Some cmd" and "parse_args argv = Inr args"
    and "start_pool rt args = Inl e"
  shows "main rt argv = Inl e"
proof -
  from parse_args_fn [OF assms(1,2)] have
    "main rt argv = compute_mean_std rt args \<or> main rt argv = linref rt args"
    using assms(1) main_dispatch [OF assms(2)] by blast
  then show ?thesis
    by (auto simp: compute_mean_std_def linref_def assms(3))
qed

lemma and_then_value:
  assumes "and_then m f = Inr v"
  obtains x where "m = Inr x" and "f x = Inr v"
  using assms by (cases m) (auto simp: and_then_def)

lemma compute_mean_std_pool:
  assumes "compute_mean_std rt args = Inr effs"
  shows "\<exists>workers rest. start_pool rt args = Inr workers \<and> effs = Pool_started workers # rest"
proof -
  from assms [unfolded compute_mean_std_def] obtain workers src lin_ref ds outputs out
    where w: "start_pool rt args = Inr workers"
      and "getattr args ''src'' = Inr src"
      and "getattr args ''linref_path'' = Inr lin_ref"
      and "open_dataset rt src lin_ref = Inr ds"
      and "imap (mean_std_extract_data ds) [0..<length ds] = Inr outputs"
      and "getattr args ''out_path'' = Inr out"
      and r: "(case out of
          PathV p \<Rightarrow> Inr [Pool_started workers,
                           Print_stats (np_mean (map (\<lambda>(y, forces). y) outputs))
                             (np_std (map (\<lambda>(y, forces). y) outputs))
                             (map_option sqrt (np_mean (np_square (entries
                                (concat (map (\<lambda>(y, forces). forces) outputs))))))
                             (mean_norm (concat (map (\<lambda>(y, forces). forces) outputs))),
                           Pickle_dump p
                             [(''energy_mean'', np_mean (map (\<lambda>(y, forces). y) outputs)),
                              (''energy_std'', np_std (map (\<lambda>(y, forces). y) outputs)),
                              (''force_rms'', map_option sqrt (np_mean (np_square (entries
                                (concat (map (\<lambda>(y, forces). forces) outputs)))))),
                              (''force_md'',
                               mean_norm (concat (map (\<lambda>(y, forces). forces) outputs)))]]
        | _ \<Rightarrow> Inl TypeError) = Inr effs"
    by (auto elim!: and_then_value simp: Let_def)
  from r have "\<exists>rest. effs = Pool_started workers # rest"
    by (cases out) auto
  with w show ?thesis by blast
qed

lemma linref_pool:
  assumes "linref rt args = Inr effs"
  shows "\<exists>workers rest. start_pool rt args = Inr workers \<and> effs = Pool_started workers # rest"
proof -
  from assms [unfolded linref_def] obtain workers src ds outputs X out
    where w: "start_pool rt args = Inr workers"
      and "getattr args ''src'' = Inr src"
      and "open_dataset rt src NoneV = Inr ds"
      and "imap (linref_extract_data ds) [0..<length ds] = Inr outputs"
      and "np_vstack (map (\<lambda>x. fst x) outputs) = Inr X"
      and "getattr args ''out_path'' = Inr out"
      and r: "(case out of
          PathV p \<Rightarrow> Inr [Pool_started workers,
                           Savez_compressed (npz_file p)
                             [(''coeff'', lstsq rt X (map (\<lambda>x. fst (snd x)) outputs))],
                           Print_saved p]
        | _ \<Rightarrow> Inl TypeError) = Inr effs"
    by (auto elim!: and_then_value simp: Let_def)
  from r have "\<exists>rest. effs = Pool_started workers # rest"
    by (cases out) auto
  with w show ?thesis by blast
qed

lemma main_pool:
  assumes "chosen argv = Some cmd" and "parse_args argv = Inr args"
    and "main rt argv = Inr effs"
  shows "\<exists>workers rest. start_pool rt args = Inr workers \<and> effs = Pool_started workers # rest"
proof -
  from parse_args_fn [OF assms(1,2)] have
    "main rt argv = compute_mean_std rt args \<or> main rt argv = linref rt args"
    using assms(1) main_dispatch [OF assms(2)] by blast
  with assms(3) compute_mean_std_pool linref_pool show ?thesis by metis
qed

text \<open>
  Claim C5 as stated, one worker process per CPU core, fails: on a machine with eight cores,
  \<^verbatim>\<open>compute_mean_std --src data --out_path stats.pkl\<close> starts 32 worker processes.
\<close>

theorem one_worker_per_core_counterexample:
  "main example_runtime
     \<lparr>chosen = Some ''compute_mean_std'', options = [Src ''data'', Out_path ''stats.pkl'']\<rparr> =
     Inr [Pool_started 32,
          Print_stats (Some (- 4)) (Some 1) (Some 1) (Some (3 / 2)),
          Pickle_dump ''stats.pkl'' [(''energy_mean'', Some (- 4)), (''energy_std'', Some 1),
                                     (''force_rms'', Some 1), (''force_md'', Some (3 / 2))]] \<and>
   cpu_count example_runtime = 8"
proof -
  let ?argv = "\<lparr>chosen = Some ''compute_mean_std'',
                options = [Src ''data'', Out_path ''stats.pkl'']\<rparr>"
  have attrs: "getattr example_mean_std_args ''num_workers'' = Inr (IntV 32)"
    "getattr example_mean_std_args ''src'' = Inr (PathV ''data'')"
    "getattr example_mean_std_args ''linref_path'' = Inr NoneV"
    "getattr example_mean_std_args ''out_path'' = Inr (PathV ''stats.pkl'')"
    by (simp_all add: getattr_def example_mean_std_args_def)
  have pool: "start_pool example_runtime example_mean_std_args = Inr 32"
    by (simp add: start_pool_workers [OF attrs(1)])
  have ds: "open_dataset example_runtime (PathV ''data'') NoneV = Inr example_dataset"
    by (simp add: example_runtime_def)
  have "main example_runtime ?argv = compute_mean_std example_runtime example_mean_std_args"
    by (rule main_dispatch(1) [OF parse_example_mean_std]) simp
  also note compute_mean_std_run [OF pool attrs(2,3) ds attrs(4)]
  finally show ?thesis
    by (simp add: example_reductions example_runtime_def)
qed

text \<open>
  Claim C5, as amended. For every command line with a subcommand that argparse accepts, the
  attribute \<^verbatim>\<open>num_workers\<close> is the worker count the command line asks for: the value of
  its last \<^verbatim>\<open>--num_workers\<close>, and 32 when it has none. The pool, which is the first thing
  either subcommand creates, has that many worker processes whatever the number of CPU cores
  of the machine; a count below one raises \<^verbatim>\<open>ValueError\<close>, which ends the run, and a run
  that goes through started that many processes before anything else.
\<close>

theorem pool_size_is_num_workers:
  assumes "chosen argv = Some cmd" and "parse_args argv = Inr args"
  shows "getattr args ''num_workers'' = Inr (IntV (requested_workers (options argv))) \<and>
         (\<forall>gs n rest. options argv = gs @ Num_workers n # rest \<and>
            (\<forall>g\<in>set rest. \<forall>k. g \<noteq> Num_workers k) \<longrightarrow>
            requested_workers (options argv) = n) \<and>
         ((\<forall>g\<in>set (options argv). \<forall>k. g \<noteq> Num_workers k) \<longrightarrow>
            requested_workers (options argv) = 32) \<and>
         start_pool rt args =
           (if requested_workers (options argv) < 1 then Inl ValueError
            else Inr (nat (requested_workers (options argv)))) \<and>
         (requested_workers (options argv) < 1 \<longrightarrow> main rt argv = Inl ValueError) \<and>
         (\<forall>effs. main rt argv = Inr effs \<longrightarrow>
            1 \<le> requested_workers (options argv) \<and>
            (\<exists>rest. effs = Pool_started (nat (requested_workers (options argv))) # rest)) \<and>
         (\<forall>cpus. start_pool (rt\<lparr>cpu_count := cpus\<rparr>) args = start_pool rt args)"
proof -
  let ?n = "requested_workers (options argv)"
  have nw: "getattr args ''num_workers'' = Inr (IntV ?n)"
    using assms by (rule parse_args_num_workers)
  have pool: "start_pool rt args = (if ?n < 1 then Inl ValueError else Inr (nat ?n))" for rt
    using nw by (rule start_pool_workers)
  have last: "\<forall>gs n rest. options argv = gs @ Num_workers n # rest \<and>
            (\<forall>g\<in>set rest. \<forall>k. g \<noteq> Num_workers k) \<longrightarrow> ?n = n"
    by (auto simp: requested_workers_def last_num_workers_append last_num_workers_absent)
  have absent: "(\<forall>g\<in>set (options argv). \<forall>k. g \<noteq> Num_workers k) \<longrightarrow> ?n = 32"
    by (simp add: requested_workers_def last_num_workers_absent)
  have low: "?n < 1 \<longrightarrow> main rt argv = Inl ValueError"
  proof
    assume "?n < 1"
    with pool have "start_pool rt args = Inl ValueError" by simp
    with assms show "main rt argv = Inl ValueError" by (rule main_pool_error)
  qed
  have started: "\<forall>effs. main rt argv = Inr effs \<longrightarrow>
            1 \<le> ?n \<and> (\<exists>rest. effs = Pool_started (nat ?n) # rest)"
  proof (intro allI impI)
    fix effs assume "main rt argv = Inr effs"
    from main_pool [OF assms this] obtain workers rest
      where w: "start_pool rt args = Inr workers" and e: "effs = Pool_started workers # rest"
      by blast
    from w pool [of rt] have "1 \<le> ?n \<and> workers = nat ?n"
      by (auto split: if_splits)
    with e show "1 \<le> ?n \<and> (\<exists>rest. effs = Pool_started (nat ?n) # rest)" by blast
  qed
  have indep: "\<forall>cpus. start_pool (rt\<lparr>cpu_count := cpus\<rparr>) args = start_pool rt args"
    by (simp add: pool)
  from nw last absent pool [of rt] low started indep show ?thesis by blast
qed

theorem pool_size_is_num_workers_witness:
  "requested_workers [Src ''data'', Num_workers 16, Out_path ''stats.pkl'', Num_workers 4] = 4 \<and>
   main example_runtime
     \<lparr>chosen = Some ''compute_mean_std'',
      options = [Src ''data'', Num_workers 16, Out_path ''stats.pkl'', Num_workers 4]\<rparr> =
     Inr [Pool_started 4,
          Print_stats (Some (- 4)) (Some 1) (Some 1) (Some (3 / 2)),
          Pickle_dump ''stats.pkl'' [(''energy_mean'', Some (- 4)), (''energy_std'', Some 1),
                                     (''force_rms'', Some 1), (''force_md'', Some (3 / 2))]] \<and>
   main example_runtime
     \<lparr>chosen = Some ''linref'', options = [Num_workers 0, Src ''data'']\<rparr> = Inl ValueError \<and>
   cpu_count example_runtime = 8"
proof -
  let ?gs = "[Src ''data'', Num_workers 16, Out_path ''stats.pkl'', Num_workers 4]"
  let ?argv = "\<lparr>chosen = Some ''compute_mean_std'', options = ?gs\<rparr>"
  let ?args = "(''num_workers'', IntV 4) # (''out_path'', PathV ''stats.pkl'') #
               (''num_workers'', IntV 16) # (''src'', PathV ''data'') #
               defaults compute_mean_std_parser"
  have parsed: "parse_args ?argv = Inr ?args"
    by (simp add: parse_args_def subparsers_def compute_mean_std_parser_def
        dest_of_def option_string_def given_value_def)
  have ch: "chosen ?argv = Some ''compute_mean_std''" by simp
  note t = pool_size_is_num_workers [OF ch parsed, of example_runtime]
  have req: "requested_workers ?gs = 4"
    by (simp add: requested_workers_def)
  from t req have pool: "start_pool example_runtime ?args = Inr 4" by simp
  have attrs: "getattr ?args ''src'' = Inr (PathV ''data'')"
    "getattr ?args ''linref_path'' = Inr NoneV"
    "getattr ?args ''out_path'' = Inr (PathV ''stats.pkl'')"
    by (simp_all add: getattr_def defaults_def compute_mean_std_parser_def dest_of_def)
  have ds: "open_dataset example_runtime (PathV ''data'') NoneV = Inr example_dataset"
    by (simp add: example_runtime_def)
  have "main example_runtime ?argv = compute_mean_std example_runtime ?args"
    by (rule main_dispatch(1) [OF parsed]) simp
  also note compute_mean_std_run [OF pool attrs(1,2) ds attrs(3)]
  finally have run: "main example_runtime ?argv =
     Inr [Pool_started 4,
          Print_stats (Some (- 4)) (Some 1) (Some 1) (Some (3 / 2)),
          Pickle_dump ''stats.pkl'' [(''energy_mean'', Some (- 4)), (''energy_std'', Some 1),
                                     (''force_rms'', Some 1), (''force_md'', Some (3 / 2))]]"
    by (simp only: example_reductions)
  let ?gs0 = "[Num_workers 0, Src ''data'']"
  let ?argv0 = "\<lparr>chosen = Some ''linref'', options = ?gs0\<rparr>"
  let ?args0 = "(''src'', PathV ''data'') # (''num_workers'', IntV 0) # defaults linref_parser"
  have parsed0: "parse_args ?argv0 = Inr ?args0"
    by (simp add: parse_args_def subparsers_def compute_mean_std_parser_def linref_parser_def
        dest_of_def option_string_def given_value_def)
  have ch0: "chosen ?argv0 = Some ''linref''" by simp
  have req0: "requested_workers ?gs0 = 0"
    by (simp add: requested_workers_def)
  from pool_size_is_num_workers [OF ch0 parsed0, of example_runtime] req0
  have low: "main example_runtime ?argv0 = Inl ValueError" by simp
  from req run low show ?thesis
    by (simp add: example_runtime_def)
qed

section \<open>The constructor of the model\<close>

lemma build_sound: "\<forall>c. fw c = None \<Longrightarrow> build fw cs = (map Built cs, None)"
  by (induction cs) simp_all


lemma attributes_read:
  "share_atom_edge_embedding (attributes n kw) = bind_kwarg False (kw_share_atom_edge_embedding kw)"
  "use_atom_edge_embedding (attributes n kw) = bind_kwarg True (kw_use_atom_edge_embedding kw)"
  "use_energy_lin_ref (attributes n kw) = bind_kwarg (Some False) (kw_use_energy_lin_ref kw)"
  "load_energy_lin_ref (attributes n kw) = bind_kwarg (Some False) (kw_load_energy_lin_ref kw)"
  "weight_init (attributes n kw) = bind_kwarg ''uniform'' (kw_weight_init kw)"
  "distance_function (attributes n kw) = bind_kwarg ''gaussian'' (kw_distance_function kw)"
  "lmax_list (attributes n kw) =
     (case bind_kwarg (Some [4]) (kw_lmax_list kw) of None \<Rightarrow> [6] | Some l \<Rightarrow> l)"
  "mmax_list (attributes n kw) =
     (case bind_kwarg (Some [2]) (kw_mmax_list kw) of None \<Rightarrow> [2] | Some l \<Rightarrow> l)"
  by (simp_all add: attributes_def Let_def)


lemma create_modules_object:
  "create_modules fw self nt gr ev = (evs, Inr b) \<Longrightarrow> b = self"
  unfolding create_modules_def
  by (auto split: prod.splits option.splits if_splits)

lemma init_object:
  assumes "init fw num_output sys_modules kw = (evs, Inr self)"
  shows "self = attributes num_output kw"
proof -
  from assms obtain ev where
    "create_modules fw (attributes num_output kw) (bind_kwarg ''layer_norm_sh'' (kw_norm_type kw))
       (bind_kwarg (Some 18) (kw_grid_resolution kw)) ev = (evs, Inr self)"
    unfolding init_def Let_def
    by (auto split: if_splits prod.splits option.splits)
  then show ?thesis by (rule create_modules_object)
qed

lemma init_succeeds:
  assumes "''e3nn'' \<in> set sys_modules" and "\<forall>c. fw c = None"
    and "\<not> invalid_configuration kw" and "lmax_list (attributes num_output kw) \<noteq> []"
  shows "\<exists>evs. init fw num_output sys_modules kw = (evs, Inr (attributes num_output kw))"
proof -
  let ?self = "attributes num_output kw"
  have n0: "\<not> ''e3nn'' \<notin> set sys_modules" using assms(1) by simp
  from assms(3) have
    n1: "\<not> (share_atom_edge_embedding ?self \<and> \<not> use_atom_edge_embedding ?self)" and
    n2: "\<not> (truthy (use_energy_lin_ref ?self) \<and> \<not> truthy (load_energy_lin_ref ?self))" and
    n3: "\<not> weight_init ?self \<notin> set [''normal'', ''uniform'']" and
    n4: "\<not> distance_function ?self \<notin> set [''gaussian'']" and
    n5: "\<not> distance_function ?self \<noteq> ''gaussian''"
    unfolding invalid_configuration_def attributes_read by auto
  have n6: "\<not> lmax_list ?self = []" using assms(4) .
  show ?thesis
    unfolding init_def create_modules_def Let_def build_sound [OF assms(2)]
    by (simp only: if_not_P [OF n0] if_not_P [OF n1] if_not_P [OF n2] if_not_P [OF n3]
        if_not_P [OF n4] if_not_P [OF n5] if_not_P [OF n6] prod.case option.case) blast
qed

text \<open>
  Claim C8. When the module \<^verbatim>\<open>e3nn\<close> is not in \<^verbatim>\<open>sys.modules\<close>, the constructor raises
  \<^verbatim>\<open>ImportError\<close>, whatever its arguments and the framework, and it has created no
  submodule by then: the only thing it did is to log the error.
\<close>

theorem init_import_error:
  assumes "''e3nn'' \<notin> set sys_modules"
  shows "init fw num_output sys_modules kw =
           ([Log_error ''You need to install e3nn==0.4.4 to use EquiformerV2.''], Inl ImportError)"
  using assms by (simp add: init_def Let_def)

theorem init_import_error_witness:
  "init sound_framework 600 [''torch'', ''numpy''] no_kwargs =
     ([Log_error ''You need to install e3nn==0.4.4 to use EquiformerV2.''], Inl ImportError)"
  by (rule init_import_error) simp




text \<open>
  Claim C10. A constructor call that passes \<^verbatim>\<open>lmax_list=None\<close> and returns leaves
  \<^verbatim>\<open>self.lmax_list == [6]\<close>; one that leaves the argument out leaves the declared default
  \<^verbatim>\<open>[4]\<close>. For \<^verbatim>\<open>mmax_list\<close>, \<^verbatim>\<open>None\<close> and the default both give \<^verbatim>\<open>[2]\<close>.
\<close>

theorem lmax_list_none_is_not_default:
  "(init fw num_output sys_modules (kw\<lparr>kw_lmax_list := Passed None\<rparr>) = (evs, Inr self) \<longrightarrow>
      lmax_list self = [6]) \<and>
   (init fw num_output sys_modules (kw\<lparr>kw_lmax_list := Omitted\<rparr>) = (evs, Inr self) \<longrightarrow>
      lmax_list self = [4]) \<and>
   (init fw num_output sys_modules (kw\<lparr>kw_mmax_list := Passed None\<rparr>) = (evs, Inr self) \<longrightarrow>
      mmax_list self = [2]) \<and>
   (init fw num_output sys_modules (kw\<lparr>kw_mmax_list := Omitted\<rparr>) = (evs, Inr self) \<longrightarrow>
      mmax_list self = [2])"
  by (auto dest!: init_object simp: attributes_read bind_kwarg_def)

theorem lmax_list_none_is_not_default_witness:
  "(\<exists>evs self. init sound_framework 600 [''e3nn''] (no_kwargs\<lparr>kw_lmax_list := Passed None\<rparr>) =
                  (evs, Inr self) \<and> lmax_list self = [6]) \<and>
   (\<exists>evs self. init sound_framework 600 [''e3nn''] (no_kwargs\<lparr>kw_lmax_list := Omitted\<rparr>) =
                  (evs, Inr self) \<and> lmax_list self = [4]) \<and>
   (\<exists>evs self. init sound_framework 600 [''e3nn''] (no_kwargs\<lparr>kw_mmax_list := Passed None\<rparr>) =
                  (evs, Inr self) \<and> mmax_list self = [2]) \<and>
   (\<exists>evs self. init sound_framework 600 [''e3nn''] (no_kwargs\<lparr>kw_mmax_list := Omitted\<rparr>) =
                  (evs, Inr self) \<and> mmax_list self = [2])"
proof -
  have m: "''e3nn'' \<in> set [''e3nn'']" by simp
  have f: "\<forall>c. sound_framework c = None" by (simp add: sound_framework_def)
  have ne: "lmax_list (attributes 600 (no_kwargs\<lparr>kw_lmax_list := Passed None\<rparr>)) \<noteq> []"
    "lmax_list (attributes 600 (no_kwargs\<lparr>kw_lmax_list := Omitted\<rparr>)) \<noteq> []"
    "lmax_list (attributes 600 (no_kwargs\<lparr>kw_mmax_list := Passed None\<rparr>)) \<noteq> []"
    "lmax_list (attributes 600 (no_kwargs\<lparr>kw_mmax_list := Omitted\<rparr>)) \<noteq> []"
    by (simp_all add: attributes_read no_kwargs_def bind_kwarg_def)
  have ok1: "\<not> invalid_configuration (no_kwargs\<lparr>kw_lmax_list := a\<rparr>)" for a
    by (simp add: invalid_configuration_def no_kwargs_def bind_kwarg_def truthy_def)
  have ok2: "\<not> invalid_configuration (no_kwargs\<lparr>kw_mmax_list := a\<rparr>)" for a
    by (simp add: invalid_configuration_def no_kwargs_def bind_kwarg_def truthy_def)
  from init_succeeds [OF m f ok1 ne(1)] obtain e1 where
    r1: "init sound_framework 600 [''e3nn''] (no_kwargs\<lparr>kw_lmax_list := Passed None\<rparr>) =
           (e1, Inr (attributes 600 (no_kwargs\<lparr>kw_lmax_list := Passed None\<rparr>)))" by blast
  from init_succeeds [OF m f ok1 ne(2)] obtain e2 where
    r2: "init sound_framework 600 [''e3nn''] (no_kwargs\<lparr>kw_lmax_list := Omitted\<rparr>) =
           (e2, Inr (attributes 600 (no_kwargs\<lparr>kw_lmax_list := Omitted\<rparr>)))" by blast
  from init_succeeds [OF m f ok2 ne(3)] obtain e3 where
    r3: "init sound_framework 600 [''e3nn''] (no_kwargs\<lparr>kw_mmax_list := Passed None\<rparr>) =
           (e3, Inr (attributes 600 (no_kwargs\<lparr>kw_mmax_list := Passed None\<rparr>)))" by blast
  from init_succeeds [OF m f ok2 ne(4)] obtain e4 where
    r4: "init sound_framework 600 [''e3nn''] (no_kwargs\<lparr>kw_mmax_list := Omitted\<rparr>) =
           (e4, Inr (attributes 600 (no_kwargs\<lparr>kw_mmax_list := Omitted\<rparr>)))" by blast
  note t1 = lmax_list_none_is_not_default [of sound_framework 600 "[''e3nn'']" no_kwargs e1
      "attributes 600 (no_kwargs\<lparr>kw_lmax_list := Passed None\<rparr>)"]
  note t2 = lmax_list_none_is_not_default [of sound_framework 600 "[''e3nn'']" no_kwargs e2
      "attributes 600 (no_kwargs\<lparr>kw_lmax_list := Omitted\<rparr>)"]
  note t3 = lmax_list_none_is_not_default [of sound_framework 600 "[''e3nn'']" no_kwargs e3
      "attributes 600 (no_kwargs\<lparr>kw_mmax_list := Passed None\<rparr>)"]
  note t4 = lmax_list_none_is_not_default [of sound_framework 600 "[''e3nn'']" no_kwargs e4
      "attributes 600 (no_kwargs\<lparr>kw_mmax_list := Omitted\<rparr>)"]
  from t1 r1 have "\<exists>evs self. init sound_framework 600 [''e3nn'']
      (no_kwargs\<lparr>kw_lmax_list := Passed None\<rparr>) = (evs, Inr self) \<and> lmax_list self = [6]"
    by blast
  moreover from t2 r2 have "\<exists>evs self. init sound_framework 600 [''e3nn'']
      (no_kwargs\<lparr>kw_lmax_list := Omitted\<rparr>) = (evs, Inr self) \<and> lmax_list self = [4]"
    by blast
  moreover from t3 r3 have "\<exists>evs self. init sound_framework 600 [''e3nn'']
      (no_kwargs\<lparr>kw_mmax_list := Passed None\<rparr>) = (evs, Inr self) \<and> mmax_list self = [2]"
    by blast
  moreover from t4 r4 have "\<exists>evs self. init sound_framework 600 [''e3nn'']
      (no_kwargs\<lparr>kw_mmax_list := Omitted\<rparr>) = (evs, Inr self) \<and> mmax_list self = [2]"
    by blast
  ultimately show ?thesis by blast
qed

section \<open>The forward pass of the model\<close>

lemma max_list_Max: "xs \<noteq> [] \<Longrightarrow> max_list xs = Max (set xs)"
  by (cases xs) (simp_all add: max_list_def Max.set_eq_fold [symmetric])

lemma attributes_max_num_elements:
  "max_num_elements (attributes n kw) = bind_kwarg 90 (kw_max_num_elements kw)"
  by (simp add: attributes_def Let_def)

lemma then_run_returns [simp]: "then_run (returns x) f = f x"
  by (simp add: then_run_def returns_def)

lemma then_run_value:
  assumes "then_run m f = (cs, Inr v)"
  obtains cs1 x cs2 where "m = (cs1, Inr x)" and "f x = (cs2, Inr v)" and "cs = cs1 @ cs2"
proof (cases "snd m")
  case (Inl e)
  with assms show ?thesis by (simp add: then_run_def)
next
  case (Inr x)
  with assms have "fst m @ fst (f x) = cs" "snd (f x) = Inr v"
    by (simp_all add: then_run_def)
  with Inr that [of "fst m" x "fst (f x)"] show ?thesis
    by (metis prod.collapse)
qed

lemma unhandled_returns [simp]: "unhandled rs ix (returns x)"
  by (simp add: unhandled_def returns_def)

lemma unhandled_raises: "ix \<Longrightarrow> unhandled rs ix (raises IndexError)"
  by (simp add: unhandled_def raises_def)

lemma unhandled_call [simp]: "unhandled (raised torch gp) ix (call torch op args)"
  by (cases "torch op args") (simp_all add: unhandled_def call_def raised_def)

lemma unhandled_then:
  assumes "unhandled rs ix m" and "\<And>x. unhandled rs ix (f x)"
  shows "unhandled rs ix (then_run m f)"
proof (cases "snd m")
  case (Inl e)
  with assms(1) show ?thesis by (simp add: unhandled_def then_run_def)
next
  case (Inr x)
  with assms(1) have m: "\<forall>c\<in>set (fst m). rs c = None" by (simp add: unhandled_def)
  have t: "then_run m f = (fst m @ fst (f x), snd (f x))"
    using Inr by (simp add: then_run_def)
  show ?thesis
  proof (cases "snd (f x)")
    case v: (Inr v)
    with assms(2) [of x] m show ?thesis
      unfolding t by (auto simp: unhandled_def)
  next
    case e: (Inl e)
    with assms(2) [of x] have
      "(\<exists>cs c. fst (f x) = cs @ [c] \<and> (\<forall>k\<in>set cs. rs k = None) \<and> rs c = Some e) \<or>
       ((\<forall>c\<in>set (fst (f x)). rs c = None) \<and> e = IndexError \<and> ix)"
      by (simp add: unhandled_def)
    then show ?thesis
    proof
      assume "\<exists>cs c. fst (f x) = cs @ [c] \<and> (\<forall>k\<in>set cs. rs k = None) \<and> rs c = Some e"
      then obtain cs c where "fst (f x) = cs @ [c]" "\<forall>k\<in>set cs. rs k = None" "rs c = Some e"
        by blast
      with m have "fst m @ fst (f x) = (fst m @ cs) @ [c] \<and>
          (\<forall>k\<in>set (fst m @ cs). rs k = None) \<and> rs c = Some e"
        by auto
      then show ?thesis
        unfolding t unhandled_def using e by (simp del: append_assoc)
    next
      assume "(\<forall>c\<in>set (fst (f x)). rs c = None) \<and> e = IndexError \<and> ix"
      with m e show ?thesis
        unfolding t unhandled_def by auto
    qed
  qed
qed

lemma unhandled_set_wigners: "unhandled (raised torch gp) ix (set_wigners torch idxs r)"
  by (induction idxs) (simp_all add: unhandled_then)

lemma unhandled_run_blocks:
  "unhandled (raised torch gp) ix (run_blocks torch self g b idxs x)"
  by (induction idxs arbitrary: x) (simp_all add: unhandled_then)

lemma unhandled_init_coefficients:
  assumes "(\<exists>i\<in>set idxs. length (lmax_list self) \<le> i) \<longrightarrow> ix"
  shows "unhandled (raised torch gp) ix
           (init_coefficients torch self an idxs offset_res offset x)"
  using assms
proof (induction idxs arbitrary: offset_res offset x)
  case Nil
  then show ?case by simp
next
  case (Cons i idxs)
  have rest: "unhandled (raised torch gp) ix
       (if i < length (lmax_list self)
        then init_coefficients torch self an idxs (offset_res + (lmax_list self ! i + 1)\<^sup>2)
               (offset + sphere_channels self) x'
        else raises IndexError)" for x'
  proof (cases "i < length (lmax_list self)")
    case True
    with Cons.prems have "(\<exists>i\<in>set idxs. length (lmax_list self) \<le> i) \<longrightarrow> ix" by simp
    from Cons.IH [OF this] True show ?thesis by simp
  next
    case False
    with Cons.prems have ix by auto
    with False show ?thesis by (simp add: unhandled_raises)
  qed
  show ?case
    by (simp only: init_coefficients.simps)
      (intro unhandled_then unhandled_call rest, simp split: if_splits)
qed

lemma unhandled_edge_encoding: "unhandled (raised torch gp) ix (edge_encoding torch self g)"
  unfolding edge_encoding_def
  by (intro unhandled_then unhandled_call) (simp add: unhandled_then)

lemma unhandled_partition_graph:
  "unhandled (raised torch gp) ix (partition_graph gp data g)"
proof (cases gp)
  case None
  then show ?thesis by (simp add: partition_graph_def)
next
  case (Some f)
  let ?m = "([Init_gp_partitions (atomic_numbers_full g) (batch_full g) (edge_index g)
                (edge_distance g) (edge_distance_vec g)],
             f (atomic_numbers_full g) (batch_full g) (edge_index g)
                (edge_distance g) (edge_distance_vec g))"
  have "unhandled (raised torch gp) ix ?m"
    using Some
    by (cases "f (atomic_numbers_full g) (batch_full g) (edge_index g)
                (edge_distance g) (edge_distance_vec g)")
      (simp_all add: unhandled_def raised_def)
  then show ?thesis
    unfolding partition_graph_def Some option.case
    by (rule unhandled_then) (simp split: prod.splits)
qed

lemma unhandled_forward_body:
  "unhandled (raised torch gp) (length (lmax_list self) < num_resolutions self)
     (forward_body torch gp self data)"
proof -
  have ix: "(\<exists>i\<in>set [0..<num_resolutions self]. length (lmax_list self) \<le> i) \<longrightarrow>
            length (lmax_list self) < num_resolutions self"
    by auto
  show ?thesis
    unfolding forward_body_def Let_def
    by (intro unhandled_then unhandled_partition_graph unhandled_call unhandled_set_wigners
        unhandled_init_coefficients [OF ix] unhandled_edge_encoding unhandled_run_blocks
        unhandled_returns | simp only: split_paired_all prod.case)+
qed

lemma partition_graph_value:
  assumes "partition_graph gp data g = (cs, Inr (an, b, g'))"
  shows "cell_offsets g' = cell_offsets g \<and> offset_distances g' = offset_distances g \<and>
         neighbors g' = neighbors g \<and> batch_full g' = batch_full g \<and>
         atomic_numbers_full g' = atomic_numbers_full g \<and>
         (gp = None \<longrightarrow> g' = g \<and> an = data_atomic_numbers data \<and> b = batch_index data)"
proof (cases gp)
  case None
  with assms show ?thesis by (simp add: partition_graph_def returns_def)
next
  case (Some f)
  with assms show ?thesis
    by (auto simp: partition_graph_def returns_def elim!: then_run_value split: prod.splits)
qed

lemma forward_body_value:
  assumes "forward_body torch gp self data = (cs, Inr out)"
  shows "\<exists>x. cs \<noteq> [] \<and> last cs = Call Final_norm [x] \<and>
           torch Final_norm [x] = Inr (node_embedding out)"
    and "cell_offsets (graph out) = main_cell_offset data"
    and "offset_distances (graph out) = main_cell_offsets_distances data"
    and "neighbors (graph out) = main_num_neighbors data"
    and "batch_full (graph out) = batch_index data"
    and "atomic_numbers_full (graph out) = data_atomic_numbers data"
    and "gp = None \<longrightarrow> edge_index (graph out) = main_edge_index data \<and>
           edge_distance_vec (graph out) = main_vector data \<and> node_offset (graph out) = 0"
proof -
  let ?g0 = "\<lparr>edge_index = main_edge_index data,
                edge_distance = main_distance data,
                edge_distance_vec = main_vector data,
                cell_offsets = main_cell_offset data,
                offset_distances = main_cell_offsets_distances data,
                neighbors = main_num_neighbors data,
                node_offset = 0,
                batch_full = batch_index data,
                atomic_numbers_full = data_atomic_numbers data\<rparr>"
  from assms obtain cs1 an b g cs2 where
    p: "partition_graph gp data ?g0 = (cs1, Inr (an, b, g))"
    and r: "then_run (call torch Init_edge_rot_mat [edge_distance_vec g]) (\<lambda>edge_rot_mat.
      then_run (set_wigners torch [0..<num_resolutions self] edge_rot_mat) (\<lambda>_.
      then_run (call torch (New_SO3_Embedding (length an) (lmax_list self)
                              (sphere_channels self)) []) (\<lambda>x.
      then_run (init_coefficients torch self an [0..<num_resolutions self] 0 0 x)
        (\<lambda>x.
      then_run (edge_encoding torch self g) (\<lambda>d.
      then_run (call torch (Edge_degree_embedding_of (atomic_numbers_full (g\<lparr>edge_distance := d\<rparr>))
                              (length an) (node_offset (g\<lparr>edge_distance := d\<rparr>)))
                  [edge_distance (g\<lparr>edge_distance := d\<rparr>), edge_index (g\<lparr>edge_distance := d\<rparr>)]) (\<lambda>edge_degree.
      then_run (call torch Add_embedding [x, edge_degree]) (\<lambda>x.
      then_run (run_blocks torch self (g\<lparr>edge_distance := d\<rparr>) b [0..<nat (num_layers self)] x) (\<lambda>x.
      then_run (call torch Final_norm [x]) (\<lambda>x.
        returns \<lparr>node_embedding = x, graph = g\<lparr>edge_distance := d\<rparr>\<rparr>))))))))) = (cs2, Inr out)"
    unfolding forward_body_def Let_def
    by (elim then_run_value) (auto split: prod.splits)
  from r have o: "\<exists>x d. cs2 \<noteq> [] \<and> last cs2 = Call Final_norm [x] \<and>
      torch Final_norm [x] = Inr (node_embedding out) \<and> graph out = g\<lparr>edge_distance := d\<rparr>"
    by (elim then_run_value) (auto simp: call_def returns_def)
  from assms p r have "cs = cs1 @ cs2"
    unfolding forward_body_def Let_def by (simp add: then_run_def)
  with o show "\<exists>x. cs \<noteq> [] \<and> last cs = Call Final_norm [x] \<and>
      torch Final_norm [x] = Inr (node_embedding out)"
    by auto
  from o obtain d where o3: "graph out = g\<lparr>edge_distance := d\<rparr>" by blast
  note v = partition_graph_value [OF p]
  from v o3 show "cell_offsets (graph out) = main_cell_offset data"
    "offset_distances (graph out) = main_cell_offsets_distances data"
    "neighbors (graph out) = main_num_neighbors data"
    "batch_full (graph out) = batch_index data"
    "atomic_numbers_full (graph out) = data_atomic_numbers data"
    "gp = None \<longrightarrow> edge_index (graph out) = main_edge_index data \<and>
       edge_distance_vec (graph out) = main_vector data \<and> node_offset (graph out) = 0"
    by auto
qed

lemma forward_empty:
  assumes "data_atomic_numbers data = []"
  shows "forward torch gp self data =
           \<lparr>printed = [], calls = [], result = Inl (FrameworkError ''max(): empty tensor'')\<rparr>"
  using assms by (simp add: forward_def tensor_max_def)

lemma forward_skip:
  assumes "data_atomic_numbers data \<noteq> []"
    and "max_num_elements self \<le> Max (set (data_atomic_numbers data))"
  shows "forward torch gp self data =
           \<lparr>printed = [''Skipping sample with atomic number exceeding the maximum''],
            calls = [], result = Inr None\<rparr>"
  using assms by (simp add: forward_def tensor_max_def max_list_Max)

lemma forward_run:
  assumes "data_atomic_numbers data \<noteq> []"
    and "\<not> max_num_elements self \<le> Max (set (data_atomic_numbers data))"
  shows "forward torch gp self data =
           \<lparr>printed = [], calls = fst (forward_body torch gp self data),
            result = (case snd (forward_body torch gp self data) of
                        Inl e \<Rightarrow> Inl e
                      | Inr out \<Rightarrow> Inr (Some out))\<rparr>"
  using assms
  by (cases "snd (forward_body torch gp self data)")
    (simp_all add: forward_def tensor_max_def max_list_Max then_run_def returns_def Let_def)

lemma unhandled_error:
  assumes "unhandled rs ix (cs, Inl e)"
  shows "\<forall>c\<in>set cs. \<forall>e'. rs c = Some e' \<longrightarrow> e' = e"
    and "\<forall>i. Suc i < length cs \<longrightarrow> rs (cs ! i) = None"
    and "e = IndexError \<and> ix \<and> (\<forall>c\<in>set cs. rs c = None) \<or> cs \<noteq> [] \<and> rs (last cs) = Some e"
proof -
  from assms consider cs' c where "cs = cs' @ [c]" "\<forall>k\<in>set cs'. rs k = None" "rs c = Some e"
    | "\<forall>c\<in>set cs. rs c = None" "e = IndexError" ix
    by (auto simp: unhandled_def)
  note cases = this
  show "\<forall>c\<in>set cs. \<forall>e'. rs c = Some e' \<longrightarrow> e' = e"
    using cases by cases auto
  show "\<forall>i. Suc i < length cs \<longrightarrow> rs (cs ! i) = None"
    using cases by cases (auto simp: nth_append)
  show "e = IndexError \<and> ix \<and> (\<forall>c\<in>set cs. rs c = None) \<or> cs \<noteq> [] \<and> rs (last cs) = Some e"
    using cases by cases auto
qed

lemma unhandled_value:
  assumes "unhandled rs ix (cs, Inr v)"
  shows "\<forall>c\<in>set cs. rs c = None"
  using assms by (simp add: unhandled_def)

lemma raised_example_torch: "raised example_torch None c = None"
  by (cases c) (simp_all add: raised_def example_torch_def)

lemma default_attributes:
  "max_num_elements (attributes 600 no_kwargs) = 90"
  "num_resolutions (attributes 600 no_kwargs) = 1"
  "lmax_list (attributes 600 no_kwargs) = [4]"
  "sphere_channels (attributes 600 no_kwargs) = 128"
  "num_layers (attributes 600 no_kwargs) = 8"
  "share_atom_edge_embedding (attributes 600 no_kwargs) = False"
  "truthy (activation_checkpoint (attributes 600 no_kwargs)) = False"
  by (simp_all add: attributes_def Let_def no_kwargs_def bind_kwarg_def truthy_def)

text \<open>
  Claim C7 as stated fails: \<^verbatim>\<open>forward\<close> does skip a sample it cannot process. With the
  default \<^verbatim>\<open>max_num_elements = 90\<close>, a batch that holds a thorium atom (atomic number 90) is
  answered with a printed message and \<^verbatim>\<open>None\<close>, before any call of the network: neither
  the result dictionary nor an exception.
\<close>

theorem forward_skip_counterexample:
  "forward example_torch None (attributes 600 no_kwargs) example_batch =
     \<lparr>printed = [''Skipping sample with atomic number exceeding the maximum''],
      calls = [], result = Inr None\<rparr>"
  by (simp add: forward_def tensor_max_def max_list_def example_batch_def water_batch_def
      default_attributes)

text \<open>
  Claim C7, as amended. \<^verbatim>\<open>forward\<close> returns \<^verbatim>\<open>None\<close>, after printing that it skips the
  sample and without a call of the network, exactly when the largest atomic number of the
  batch is at least \<^verbatim>\<open>max_num_elements\<close>; an empty batch fails in \<^verbatim>\<open>max()\<close>. Apart from
  that it has no handling of its own: whenever a call that the run made raised an exception,
  \<^verbatim>\<open>forward\<close> ends in that very exception, and every call it made before had returned. An
  exception it ends in is that of \<^verbatim>\<open>max()\<close> on an empty batch, or an \<^verbatim>\<open>IndexError\<close> of
  Python for a resolution without an entry in \<^verbatim>\<open>lmax_list\<close>, or the one its last call
  raised. When it returns the dictionary, every call returned, the last of them the final
  norm, whose value is the node embedding, and the graph holds the tensors of the batch (the
  edges and the node offset being those of this rank under graph parallelism). And it does
  return the dictionary when no call it made raised, for a batch with atomic numbers below
  \<^verbatim>\<open>max_num_elements\<close> and an \<^verbatim>\<open>lmax_list\<close> with an entry for every resolution.
\<close>

theorem forward_outcomes:
  "(result (forward torch gp self data) = Inr None \<longleftrightarrow>
      data_atomic_numbers data \<noteq> [] \<and>
      max_num_elements self \<le> Max (set (data_atomic_numbers data))) \<and>
   (result (forward torch gp self data) = Inr None \<longrightarrow>
      printed (forward torch gp self data) =
        [''Skipping sample with atomic number exceeding the maximum''] \<and>
      calls (forward torch gp self data) = []) \<and>
   (data_atomic_numbers data = [] \<longrightarrow>
      forward torch gp self data =
        \<lparr>printed = [], calls = [], result = Inl (FrameworkError ''max(): empty tensor'')\<rparr>) \<and>
   (\<forall>c\<in>set (calls (forward torch gp self data)). \<forall>e.
      raised torch gp c = Some e \<longrightarrow> result (forward torch gp self data) = Inl e) \<and>
   (\<forall>i. Suc i < length (calls (forward torch gp self data)) \<longrightarrow>
      raised torch gp (calls (forward torch gp self data) ! i) = None) \<and>
   (\<forall>e. result (forward torch gp self data) = Inl e \<longrightarrow>
      data_atomic_numbers data = [] \<and> e = FrameworkError ''max(): empty tensor'' \<or>
      e = IndexError \<and> length (lmax_list self) < num_resolutions self \<and>
        (\<forall>c\<in>set (calls (forward torch gp self data)). raised torch gp c = None) \<or>
      calls (forward torch gp self data) \<noteq> [] \<and>
        raised torch gp (last (calls (forward torch gp self data))) = Some e) \<and>
   (\<forall>out. result (forward torch gp self data) = Inr (Some out) \<longrightarrow>
      printed (forward torch gp self data) = [] \<and>
      (\<forall>c\<in>set (calls (forward torch gp self data)). raised torch gp c = None) \<and>
      (\<exists>x. calls (forward torch gp self data) \<noteq> [] \<and>
           last (calls (forward torch gp self data)) = Call Final_norm [x] \<and>
           torch Final_norm [x] = Inr (node_embedding out)) \<and>
      cell_offsets (graph out) = main_cell_offset data \<and>
      offset_distances (graph out) = main_cell_offsets_distances data \<and>
      neighbors (graph out) = main_num_neighbors data \<and>
      batch_full (graph out) = batch_index data \<and>
      atomic_numbers_full (graph out) = data_atomic_numbers data \<and>
      (gp = None \<longrightarrow> edge_index (graph out) = main_edge_index data \<and>
         edge_distance_vec (graph out) = main_vector data \<and> node_offset (graph out) = 0)) \<and>
   (data_atomic_numbers data \<noteq> [] \<and>
    Max (set (data_atomic_numbers data)) < max_num_elements self \<and>
    num_resolutions self \<le> length (lmax_list self) \<and>
    (\<forall>c\<in>set (calls (forward torch gp self data)). raised torch gp c = None) \<longrightarrow>
      (\<exists>out. result (forward torch gp self data) = Inr (Some out)))"
proof -
  let ?F = "forward torch gp self data"
  let ?an = "data_atomic_numbers data"
  let ?msg = "''Skipping sample with atomic number exceeding the maximum''"
  let ?rs = "raised torch gp"
  let ?ix = "length (lmax_list self) < num_resolutions self"
  consider (empty) "?an = []"
    | (skip) "?an \<noteq> []" "max_num_elements self \<le> Max (set ?an)"
    | (run_error) cs e where "?an \<noteq> []" "\<not> max_num_elements self \<le> Max (set ?an)"
        "forward_body torch gp self data = (cs, Inl e)"
    | (run_value) cs out where "?an \<noteq> []" "\<not> max_num_elements self \<le> Max (set ?an)"
        "forward_body torch gp self data = (cs, Inr out)"
  proof -
    obtain cs r where b: "forward_body torch gp self data = (cs, r)"
      by (cases "forward_body torch gp self data")
    show ?thesis
      using that b by (cases r) blast+
  qed
  then show ?thesis
  proof cases
    case empty
    have F: "?F = \<lparr>printed = [], calls = [],
                   result = Inl (FrameworkError ''max(): empty tensor'')\<rparr>"
      using empty by (rule forward_empty)
    show ?thesis
      unfolding F using empty by simp
  next
    case skip
    have F: "?F = \<lparr>printed = [?msg], calls = [], result = Inr None\<rparr>"
      using skip by (rule forward_skip)
    show ?thesis
      unfolding F using skip by (simp del: Max_less_iff Max_le_iff)
  next
    case run_error
    have F: "?F = \<lparr>printed = [], calls = cs, result = Inl e\<rparr>"
      using forward_run [OF run_error(1,2)] run_error(3) by simp
    note u = unhandled_forward_body [of torch gp self data, unfolded run_error(3)]
    note p = unhandled_error [OF u]
    have 4: "\<forall>c\<in>set cs. \<forall>e'. ?rs c = Some e' \<longrightarrow> e = e'"
      using p(1) by auto
    have 8: "\<not> (?an \<noteq> [] \<and> Max (set ?an) < max_num_elements self \<and>
                num_resolutions self \<le> length (lmax_list self) \<and> (\<forall>c\<in>set cs. ?rs c = None))"
      using p(3) by auto
    have 6: "\<forall>e'. e = e' \<longrightarrow>
      ?an = [] \<and> e' = FrameworkError ''max(): empty tensor'' \<or>
      e' = IndexError \<and> ?ix \<and> (\<forall>c\<in>set cs. ?rs c = None) \<or>
      cs \<noteq> [] \<and> ?rs (last cs) = Some e'"
      using p(3) by auto
    show ?thesis
      unfolding F using run_error(1,2) 4 p(2) 6 8
      by (simp del: Max_less_iff Max_le_iff)
  next
    case run_value
    have F: "?F = \<lparr>printed = [], calls = cs, result = Inr (Some out)\<rparr>"
      using forward_run [OF run_value(1,2)] run_value(3) by simp
    note u = unhandled_forward_body [of torch gp self data, unfolded run_value(3)]
    note a = unhandled_value [OF u]
    note v = forward_body_value [OF run_value(3)]
    have 5: "\<forall>i. Suc i < length cs \<longrightarrow> ?rs (cs ! i) = None"
      using a by simp
    show ?thesis
      unfolding F using run_value(1,2) a 5 v
      by (simp del: Max_less_iff Max_le_iff)
  qed
qed

lemma failing_calls:
  "calls (forward failing_torch None (attributes 600 no_kwargs) water_batch) =
     [Call Init_edge_rot_mat [0], Call (Set_wigner 0) [0],
      Call (New_SO3_Embedding 3 [4] 128) [],
      Call (Sphere_embedding_of [8, 1, 1]) [],
      Call (Assign_coefficients 0) [0, 0], Call Distance_expansion_of [0],
      Call (Edge_degree_embedding_of [8, 1, 1] 3 0) [0, 0],
      Call Add_embedding [0, 0],
      Call (Run_block 0 False [8, 1, 1] 0) [0, 0, 0, 0],
      Call (Run_block 1 False [8, 1, 1] 0) [0, 0, 0, 0],
      Call (Run_block 2 False [8, 1, 1] 0) [0, 0, 0, 0]]"
  by (simp add: forward_def tensor_max_def max_list_def water_batch_def default_attributes
      forward_body_def partition_graph_def edge_encoding_def then_run_def call_def returns_def
      failing_torch_def upt_rec Let_def)

theorem forward_outcomes_witness:
  "result (forward failing_torch None (attributes 600 no_kwargs) water_batch) =
     Inl (FrameworkError ''CUDA out of memory'') \<and>
   last (calls (forward failing_torch None (attributes 600 no_kwargs) water_batch)) =
     Call (Run_block 2 False [8, 1, 1] 0) [0, 0, 0, 0] \<and>
   (\<exists>out. result (forward example_torch None (attributes 600 no_kwargs) water_batch) =
            Inr (Some out)) \<and>
   forward example_torch None (attributes 600 no_kwargs) (water_batch\<lparr>data_atomic_numbers := []\<rparr>) =
     \<lparr>printed = [], calls = [], result = Inl (FrameworkError ''max(): empty tensor'')\<rparr> \<and>
   result (forward example_torch None (attributes 600 no_kwargs) example_batch) = Inr None"
proof -
  note t1 = forward_outcomes [of failing_torch None "attributes 600 no_kwargs" water_batch]
  note t2 = forward_outcomes [of example_torch None "attributes 600 no_kwargs" water_batch]
  note t3 = forward_outcomes [of example_torch None "attributes 600 no_kwargs"
      "water_batch\<lparr>data_atomic_numbers := []\<rparr>"]
  note t4 = forward_outcomes [of example_torch None "attributes 600 no_kwargs" example_batch]
  let ?c = "Call (Run_block 2 False [8, 1, 1] 0) [0, 0, 0, 0] :: nat call"
  have "?c \<in> set (calls (forward failing_torch None (attributes 600 no_kwargs) water_batch))"
    unfolding failing_calls by simp
  moreover have "raised failing_torch None ?c = Some (FrameworkError ''CUDA out of memory'')"
    by (simp add: raised_def failing_torch_def)
  ultimately have 1: "result (forward failing_torch None (attributes 600 no_kwargs) water_batch) =
     Inl (FrameworkError ''CUDA out of memory'')"
    using t1 by blast
  have 2: "last (calls (forward failing_torch None (attributes 600 no_kwargs) water_batch)) = ?c"
    unfolding failing_calls by simp
  have "data_atomic_numbers water_batch \<noteq> [] \<and>
    Max (set (data_atomic_numbers water_batch)) < max_num_elements (attributes 600 no_kwargs) \<and>
    num_resolutions (attributes 600 no_kwargs) \<le> length (lmax_list (attributes 600 no_kwargs))"
    by (simp add: water_batch_def default_attributes)
  with t2 raised_example_torch have 3:
    "\<exists>out. result (forward example_torch None (attributes 600 no_kwargs) water_batch) =
            Inr (Some out)"
    by blast
  have "data_atomic_numbers (water_batch\<lparr>data_atomic_numbers := []\<rparr>) = []" by simp
  with t3 have 4:
    "forward example_torch None (attributes 600 no_kwargs) (water_batch\<lparr>data_atomic_numbers := []\<rparr>) =
     \<lparr>printed = [], calls = [], result = Inl (FrameworkError ''max(): empty tensor'')\<rparr>"
    by blast
  have "data_atomic_numbers example_batch \<noteq> [] \<and>
    max_num_elements (attributes 600 no_kwargs) \<le> Max (set (data_atomic_numbers example_batch))"
    by (simp add: example_batch_def water_batch_def default_attributes)
  with t4 have 5:
    "result (forward example_torch None (attributes 600 no_kwargs) example_batch) = Inr None"
    by blast
  from 1 2 3 4 5 show ?thesis by blast
qed

end
